(* ===== verification/Prelude.thy ===== *)
theory Prelude
  imports Main "HOL-Library.Word"
begin

text \<open>
  Shared vocabulary of the register-access development: the Rust integer types
  of \<open>src/mips-runner/src/registers.rs\<close> as words of their width, the shape of a
  fallible \<open>&mut self\<close> method (a result together with the state after the call),
  and the generic lemmas on words and maps that the component theories use.
  The collection \<open>uc_defs\<close> gathers the definitions of the register operations,
  so that a proof unfolds a whole call chain with \<open>simp add: uc_defs\<close>.
\<close>

type_synonym u64 = "64 word"
type_synonym i64 = "64 word" \<comment> \<open>Rust \<open>i64\<close>: the same 64 bits, read through \<open>sint\<close>\<close>
type_synonym i32 = "32 word" \<comment> \<open>Rust \<open>i32\<close>: the engine's register identifiers\<close>

text \<open>
  A \<open>&self\<close> method returning \<open>Result<'a, 'e>\<close> is a function \<open>'s \<Rightarrow> 'e + 'a\<close>; a
  \<open>&mut self\<close> method is \<open>'s \<Rightarrow> ('e + 'a) \<times> 's\<close>: the result with \<open>Inl\<close> the
  error, and the state the object is left in, on the error path as well.
\<close>

type_synonym ('s, 'e, 'a) mut_method = "'s \<Rightarrow> ('e + 'a) \<times> 's"

named_theorems uc_defs "definitions of the register operations, unfolded together"

subsection \<open>Signed and unsigned readings of a word\<close>

lemma sint_eq_uint_minus:
  "sint (w::'a::len word) = uint w - 2 ^ LENGTH('a) * of_bool (sint w < 0)"
proof -
  have len: "Suc (LENGTH('a) - Suc 0) = LENGTH('a)" by simp
  have tb: "take_bit LENGTH('a) (uint w) = uint w"
    by (simp add: take_bit_int_eq_self)
  have b: "bit (uint w) (LENGTH('a) - Suc 0) = (sint w < 0)"
    by (simp add: bit_uint_iff bit_last_iff)
  have "sint w = take_bit (Suc (LENGTH('a) - Suc 0)) (uint w)
      - 2 ^ Suc (LENGTH('a) - Suc 0) * of_bool (bit (uint w) (LENGTH('a) - Suc 0))"
    by (simp only: sint_uint signed_take_bit_eq_take_bit_minus)
  then show ?thesis
    by (simp only: len tb b)
qed

lemma sint_neg_eq: "sint (w::'a::len word) < 0 \<Longrightarrow> sint w = uint w - 2 ^ LENGTH('a)"
  by (subst sint_eq_uint_minus) simp

lemma sint_nonneg_eq: "0 \<le> sint (w::'a::len word) \<Longrightarrow> sint w = uint w"
  by (subst sint_eq_uint_minus) simp

lemma sint_uminus:
  assumes "sint (d::'a::len word) \<noteq> - (2 ^ (LENGTH('a) - 1))"
  shows "sint (- d) = - sint d"
proof -
  have "- (2 ^ (LENGTH('a) - 1)) < sint d" using sint_ge [of d] assms by linarith
  moreover have "sint d < 2 ^ (LENGTH('a) - 1)" by (rule sint_lt)
  ultimately show ?thesis
    by (simp add: sint_word_minus signed_take_bit_int_eq_self)
qed

lemma take_bit_exp_self_ne:
  assumes "n < LENGTH('a)"
  shows "take_bit n ((2::'a::len word) ^ n) \<noteq> 2 ^ n"
proof
  assume eq: "take_bit n ((2::'a word) ^ n) = 2 ^ n"
  have "bit ((2::'a word) ^ n) n" using assms by (simp add: bit_exp_iff)
  moreover have "\<not> bit (take_bit n ((2::'a word) ^ n)) n" by (simp add: bit_take_bit_iff)
  ultimately show False using eq by simp
qed

lemma uint_word_of_int_in_range:
  "0 \<le> k \<Longrightarrow> k < 2 ^ LENGTH('a) \<Longrightarrow> uint (word_of_int k :: 'a::len word) = k"
  by (simp add: uint_word_of_int_eq take_bit_int_eq_self)

lemma word_of_int_uint_add_sint: "word_of_int (uint a + sint d) = a + (d :: 'a::len word)"
  by (simp only: of_int_add word_of_int_uint of_int_sint scast_id)

subsection \<open>Maps\<close>

lemma ran_map_upd_subset: "ran (m(k \<mapsto> v)) \<subseteq> insert v (ran m)"
  by (auto simp: ran_def)

end
