(* ===== verification/Unicorn_Engine.thy ===== *)
theory Unicorn_Engine
  imports Prelude
begin

text \<open>
  The emulation engine the register layer is built on: the \<open>unicorn_engine\<close>
  crate, which is not part of this repository. Only the contract that
  \<open>src/mips-runner/src/registers.rs\<close> uses is modelled (spec, section 6):
  \<open>reg_read\<close> and \<open>reg_write\<close> by register index, the \<open>uc_error\<close> codes, and the
  caller-supplied data that a \<open>Unicorn<'a, D>\<close> context carries (\<open>get_data\<close>).
  The engine keeps a register file indexed by \<open>i32\<close>, whose domain is the set of
  registers of the emulated architecture, and the register width of the emulated
  mode: a register narrower than 64 bits keeps the low-order bits of a written
  value and reads back zero-extended (spec, section 3). A context that is not in
  a state that permits register access reports its error code on every access.
\<close>

text \<open>\<open>unicorn_const::uc_error\<close>, with its constructors in the crate's order.\<close>

datatype uc_error =
    OK | NOMEM | ARCH | HANDLE | MODE | VERSION
  | READ_UNMAPPED | WRITE_UNMAPPED | FETCH_UNMAPPED | HOOK | INSN_INVALID | MAP
  | WRITE_PROT | READ_PROT | FETCH_PROT | ARG
  | READ_UNALIGNED | WRITE_UNALIGNED | FETCH_UNALIGNED
  | HOOK_EXIST | RESOURCE | EXCEPTION

record uc_engine =
  uc_mode_bits :: nat           \<comment> \<open>register width of the emulated mode (32 for MIPS32)\<close>
  uc_regs :: "i32 \<rightharpoonup> u64"       \<comment> \<open>register file; its domain is the valid register ids\<close>
  uc_status :: uc_error         \<comment> \<open>\<open>OK\<close>, or the error every register access reports\<close>

text \<open>\<open>Unicorn<'a, D>\<close>: the engine handle and the data attached to it.\<close>

record 'd unicorn =
  uc :: uc_engine
  uc_data :: 'd

definition get_data :: "'d unicorn \<Rightarrow> 'd" where
  "get_data u = uc_data u"

subsection \<open>Register access\<close>

definition uc_reg_read :: "uc_engine \<Rightarrow> i32 \<Rightarrow> uc_error + u64" where
  "uc_reg_read e regid =
     (if uc_status e \<noteq> OK then Inl (uc_status e)
      else (case uc_regs e regid of None \<Rightarrow> Inl ARG | Some v \<Rightarrow> Inr v))"

definition uc_reg_write :: "i32 \<Rightarrow> u64 \<Rightarrow> (uc_engine, uc_error, unit) mut_method" where
  "uc_reg_write regid value e =
     (if uc_status e \<noteq> OK then (Inl (uc_status e), e)
      else (case uc_regs e regid of
              None \<Rightarrow> (Inl ARG, e)
            | Some _ \<Rightarrow>
                (Inr (), e\<lparr>uc_regs := (uc_regs e)(regid \<mapsto> take_bit (uc_mode_bits e) value)\<rparr>)))"

text \<open>\<open>Unicorn::reg_read\<close> and \<open>Unicorn::reg_write\<close> on the context.\<close>

definition reg_read :: "'d unicorn \<Rightarrow> i32 \<Rightarrow> uc_error + u64" where
  "reg_read u regid = uc_reg_read (uc u) regid"

definition reg_write :: "i32 \<Rightarrow> u64 \<Rightarrow> ('d unicorn, uc_error, unit) mut_method" where
  "reg_write regid value u =
     (case uc_reg_write regid value (uc u) of (r, e') \<Rightarrow> (r, u\<lparr>uc := e'\<rparr>))"

declare get_data_def [uc_defs] reg_read_def [uc_defs] reg_write_def [uc_defs]

text \<open>
  Well-formedness of the engine: every register holds a value of the mode's
  width. The engine establishes it on reset and every write keeps it.
\<close>

definition uc_wf :: "uc_engine \<Rightarrow> bool" where
  "uc_wf e \<longleftrightarrow> (\<forall>v \<in> ran (uc_regs e). take_bit (uc_mode_bits e) v = v)"

subsection \<open>What a write keeps\<close>

lemma uc_reg_write_frame:
  assumes "uc_reg_write r v e = (res, e')"
  shows "uc_mode_bits e' = uc_mode_bits e" "uc_status e' = uc_status e"
    "dom (uc_regs e') = dom (uc_regs e)"
  using assms by (auto simp: uc_reg_write_def split: if_splits option.splits)

lemma uc_reg_write_wf: "uc_wf e \<Longrightarrow> uc_reg_write r v e = (res, e') \<Longrightarrow> uc_wf e'"
  by (auto simp: uc_reg_write_def uc_wf_def split: if_splits option.splits
      dest!: subsetD [OF ran_map_upd_subset])

end
