(* ===== verification/Register_Info.thy ===== *)
theory Register_Info
  imports Prelude
begin

text \<open>
  \<open>RegisterInfo\<close> (\<open>src/mips-runner/src/registers.rs\<close>, lines 56--68): the
  per-architecture record of the engine register ids that play the roles of
  program counter and stack pointer, and its constructor \<open>RegisterInfo::new\<close>.
  The constructor takes any \<open>impl Into<i32>\<close>; the conversion of each argument
  type is passed explicitly, as the trait's dictionary. The context data
  \<open>crate::data::Data\<close> is not among the sources; the register layer uses only its
  field \<open>register_info\<close> (spec, section 3), which is what the record \<open>data\<close> holds.
\<close>

record register_info =
  pc :: i32
  sp :: i32

definition register_info_new :: "('p \<Rightarrow> i32) \<Rightarrow> ('s \<Rightarrow> i32) \<Rightarrow> 'p \<Rightarrow> 's \<Rightarrow> register_info" where
  "register_info_new into_pc into_sp pc_reg sp_reg = \<lparr>pc = into_pc pc_reg, sp = into_sp sp_reg\<rparr>"

record data =
  register_info :: register_info

end
