(* ===== verification/Example_Contexts.thy ===== *)
theory Example_Contexts
  imports Unicorn_Engine Register_Info
begin

text \<open>
  Concrete emulation contexts on which the witnesses evaluate the operations.
  They follow the spec's example architecture (section 8): program counter at
  engine index 15, stack pointer at index 29, plus one general register at
  index 2. The register width is a parameter: 64 for a 64-bit mode, 32 for a
  32-bit mode such as MIPS32.
\<close>

definition example_info :: register_info where
  "example_info = register_info_new (\<lambda>r::i32. r) (\<lambda>r::i32. r) 15 29"

definition example_ctx :: "nat \<Rightarrow> u64 \<Rightarrow> u64 \<Rightarrow> data unicorn" where
  "example_ctx bits pc_val sp_val =
     \<lparr>uc = \<lparr>uc_mode_bits = bits, uc_regs = [2 \<mapsto> 0, 15 \<mapsto> pc_val, 29 \<mapsto> sp_val], uc_status = OK\<rparr>,
      uc_data = \<lparr>register_info = example_info\<rparr>\<rparr>"

lemmas example_defs = example_ctx_def example_info_def register_info_new_def get_data_def

end
