(* ===== verification/Registers.thy ===== *)
theory Registers
  imports Unicorn_Engine Register_Info Example_Contexts
begin

text \<open>
  \<open>impl Registers for Unicorn<'a, Data>\<close> (\<open>src/mips-runner/src/registers.rs\<close>,
  trait at lines 5--10, impl at lines 38--54): generic register access by index,
  delegated to the engine, and the program counter resolved through the
  context's \<open>RegisterInfo\<close>. Reads take the context, writes return the result
  and the context after the call. The lemmas give every branch of a write (its
  success exactly when the engine is healthy and the id is a register, the
  unchanged context on failure), read-after-write, independence of distinct
  registers, and that no call changes the attached \<open>RegisterInfo\<close>.
\<close>

text \<open>The trait \<open>Registers\<close> as the dictionary of its four methods over the implementing type.\<close>

record 's registers =
  rg_read :: "'s \<Rightarrow> i32 \<Rightarrow> uc_error + u64"
  rg_write :: "i32 \<Rightarrow> u64 \<Rightarrow> ('s, uc_error, unit) mut_method"
  rg_pc :: "'s \<Rightarrow> uc_error + u64"
  rg_set_pc :: "u64 \<Rightarrow> ('s, uc_error, unit) mut_method"

definition unicorn_read :: "data unicorn \<Rightarrow> i32 \<Rightarrow> uc_error + u64" where
  "unicorn_read u reg = reg_read u reg"

definition unicorn_write :: "i32 \<Rightarrow> u64 \<Rightarrow> (data unicorn, uc_error, unit) mut_method" where
  "unicorn_write reg value u = reg_write reg value u"

definition unicorn_pc :: "data unicorn \<Rightarrow> uc_error + u64" where
  "unicorn_pc u = (let pc_reg = pc (register_info (get_data u)) in unicorn_read u pc_reg)"

definition unicorn_set_pc :: "u64 \<Rightarrow> (data unicorn, uc_error, unit) mut_method" where
  "unicorn_set_pc value u = (let pc_reg = pc (register_info (get_data u)) in unicorn_write pc_reg value u)"

definition unicorn_registers :: "data unicorn registers" where
  "unicorn_registers =
     \<lparr>rg_read = unicorn_read, rg_write = unicorn_write, rg_pc = unicorn_pc, rg_set_pc = unicorn_set_pc\<rparr>"

declare unicorn_read_def [uc_defs] unicorn_write_def [uc_defs]
  unicorn_pc_def [uc_defs] unicorn_set_pc_def [uc_defs]

abbreviation mode_bits :: "'d unicorn \<Rightarrow> nat" where
  "mode_bits u \<equiv> uc_mode_bits (uc u)"

subsection \<open>Reads and writes on every branch\<close>

lemma unicorn_write_eq:
  "unicorn_write r v u =
     (if uc_status (uc u) \<noteq> OK then (Inl (uc_status (uc u)), u)
      else if r \<notin> dom (uc_regs (uc u)) then (Inl ARG, u)
      else (Inr (), u\<lparr>uc := uc u\<lparr>uc_regs := (uc_regs (uc u))(r \<mapsto> take_bit (mode_bits u) v)\<rparr>\<rparr>))"
  by (auto simp: uc_defs uc_reg_write_def split: option.splits)

lemma unicorn_read_eq:
  "unicorn_read u r =
     (if uc_status (uc u) \<noteq> OK then Inl (uc_status (uc u))
      else case uc_regs (uc u) r of None \<Rightarrow> Inl ARG | Some v \<Rightarrow> Inr v)"
  by (simp add: uc_defs uc_reg_read_def)

lemma unicorn_write_Inl:
  "unicorn_write r v u = (Inl err, u') \<Longrightarrow> u' = u"
  by (auto simp: unicorn_write_eq split: if_splits)

lemma unicorn_write_data: "unicorn_write r v u = (res, u') \<Longrightarrow> get_data u' = get_data u"
  by (auto simp: unicorn_write_eq get_data_def split: if_splits)

lemma unicorn_write_mode: "unicorn_write r v u = (res, u') \<Longrightarrow> mode_bits u' = mode_bits u"
  by (auto simp: unicorn_write_eq split: if_splits)

lemma unicorn_write_read_same:
  "unicorn_write r v u = (Inr (), u') \<Longrightarrow> unicorn_read u' r = Inr (take_bit (mode_bits u) v)"
  by (auto simp: unicorn_write_eq unicorn_read_eq split: if_splits)

lemma unicorn_write_engine:
  assumes "unicorn_write r v u = (res, u')"
  shows "uc_status (uc u') = uc_status (uc u)" "dom (uc_regs (uc u')) = dom (uc_regs (uc u))"
    "uc_wf (uc u) \<Longrightarrow> uc_wf (uc u')"
proof -
  have e: "uc_reg_write r v (uc u) = (res, uc u')"
    using assms by (auto simp: uc_defs split: prod.splits)
  show "uc_status (uc u') = uc_status (uc u)" "dom (uc_regs (uc u')) = dom (uc_regs (uc u))"
    using uc_reg_write_frame [OF e] by simp_all
  show "uc_wf (uc u) \<Longrightarrow> uc_wf (uc u')" using uc_reg_write_wf [OF _ e] by simp
qed

subsection \<open>Read-after-write and independence of registers\<close>

text \<open>
  C7. Read-after-write: after a successful \<open>write(r, v)\<close>, \<open>read(r)\<close> returns
  \<open>v\<close> cut to the register width of the emulated mode (all of \<open>v\<close> in a 64-bit
  mode).
\<close>

theorem write_then_read:
  assumes "unicorn_write r v u = (Inr (), u')"
  shows "unicorn_read u' r = Inr (take_bit (mode_bits u) v) \<and>
    (64 \<le> mode_bits u \<longrightarrow> unicorn_read u' r = Inr v)"
  using unicorn_write_read_same [OF assms] by (simp add: take_bit_word_eq_self)

theorem write_then_read_witness:
  "unicorn_write 2 7 (example_ctx 64 0 0) = (Inr (), snd (unicorn_write 2 7 (example_ctx 64 0 0))) \<and>
   unicorn_read (snd (unicorn_write 2 7 (example_ctx 64 0 0))) 2 = Inr 7"
proof -
  have w: "unicorn_write 2 7 (example_ctx 64 0 0) = (Inr (), snd (unicorn_write 2 7 (example_ctx 64 0 0)))"
    by (simp add: unicorn_write_eq example_defs)
  have "mode_bits (example_ctx 64 0 0) = 64" by (simp add: example_defs)
  with w write_then_read [OF w] show ?thesis by simp
qed

text \<open>
  C9. Registers are independent: a write to register \<open>r\<close>, successful or not,
  leaves what \<open>read\<close> returns for every other register id unchanged.
\<close>

theorem write_keeps_other_registers:
  "unicorn_write r v u = (res, u') \<Longrightarrow> r' \<noteq> r \<Longrightarrow> unicorn_read u' r' = unicorn_read u r'"
  by (auto simp: unicorn_write_eq unicorn_read_eq split: if_splits)

theorem write_keeps_other_registers_witness:
  "unicorn_write 2 7 (example_ctx 64 5 9) = (Inr (), snd (unicorn_write 2 7 (example_ctx 64 5 9))) \<and>
   (29::i32) \<noteq> 2 \<and>
   unicorn_read (snd (unicorn_write 2 7 (example_ctx 64 5 9))) 29 = Inr 9"
proof -
  have w: "unicorn_write 2 7 (example_ctx 64 5 9) = (Inr (), snd (unicorn_write 2 7 (example_ctx 64 5 9)))"
    by (simp add: unicorn_write_eq example_defs)
  have ne: "(29::i32) \<noteq> 2" by simp
  have "unicorn_read (example_ctx 64 5 9) 29 = Inr 9" by (simp add: unicorn_read_eq example_defs)
  with w ne write_keeps_other_registers [OF w ne] show ?thesis by simp
qed

text \<open>
  C10. Errors of \<open>write\<close> are the engine's, reported unchanged, and a failed
  write changes nothing: the context's status when it is not \<open>OK\<close>, otherwise
  \<open>ARG\<close> for an id that is not a register of the architecture. A write succeeds
  exactly when neither applies.
\<close>

theorem write_error:
  assumes "unicorn_write r v u = (Inl err, u')"
  shows "u' = u \<and>
    (uc_status (uc u) \<noteq> OK \<and> err = uc_status (uc u) \<or>
     uc_status (uc u) = OK \<and> r \<notin> dom (uc_regs (uc u)) \<and> err = ARG)"
  using assms by (auto simp: unicorn_write_eq split: if_splits)

theorem write_error_witness:
  "unicorn_write 7 1 (example_ctx 64 0 0) = (Inl ARG, example_ctx 64 0 0) \<and>
   uc_status (uc (example_ctx 64 0 0)) = OK \<and> (7::i32) \<notin> dom (uc_regs (uc (example_ctx 64 0 0)))"
proof -
  have w: "unicorn_write 7 1 (example_ctx 64 0 0) = (Inl ARG, example_ctx 64 0 0)"
    by (simp add: unicorn_write_eq example_defs)
  show ?thesis using w write_error [OF w] by (simp add: example_defs)
qed

text \<open>
  C11. \<open>set_pc\<close> then \<open>pc\<close>: after a successful \<open>set_pc(v)\<close>, \<open>pc()\<close> returns
  \<open>v\<close> cut to the mode's register width, and \<open>read\<close> of the configured PC id
  returns the same.
\<close>

theorem set_pc_then_pc:
  assumes "unicorn_set_pc v u = (Inr (), u')"
  shows "unicorn_pc u' = Inr (take_bit (mode_bits u) v) \<and>
    unicorn_read u' (pc (register_info (get_data u))) = Inr (take_bit (mode_bits u) v)"
proof -
  have w: "unicorn_write (pc (register_info (get_data u))) v u = (Inr (), u')"
    using assms by (simp add: unicorn_set_pc_def)
  then show ?thesis
    using unicorn_write_read_same [OF w] unicorn_write_data [OF w] by (simp add: unicorn_pc_def)
qed

theorem set_pc_then_pc_witness:
  "unicorn_set_pc 4198400 (example_ctx 32 0 0) =
     (Inr (), snd (unicorn_set_pc 4198400 (example_ctx 32 0 0))) \<and>
   unicorn_pc (snd (unicorn_set_pc 4198400 (example_ctx 32 0 0))) = Inr 4198400"
proof -
  have w: "unicorn_set_pc 4198400 (example_ctx 32 0 0) =
     (Inr (), snd (unicorn_set_pc 4198400 (example_ctx 32 0 0)))"
    by (simp add: unicorn_set_pc_def unicorn_write_eq example_defs)
  have "mode_bits (example_ctx 32 0 0) = 32" by (simp add: example_defs)
  then show ?thesis using w set_pc_then_pc [OF w] by simp
qed

end
