(* ===== verification/Checked_Arith.thy ===== *)
theory Checked_Arith
  imports Prelude
begin

text \<open>
  \<open>u64::checked_add_signed\<close>, the Rust standard-library routine that
  \<open>StackRegister::incr_sp\<close> (\<open>src/mips-runner/src/registers.rs\<close>, lines 19--21)
  uses to add a signed delta to the stack pointer. It is library code the source
  calls, modelled as the standard library writes it: a wrapping addition of the
  delta's bits with the carry flag, whose meaning flips when the delta is
  negative. The theory proves it equal to the mathematical contract (the sum of
  the unsigned and the signed reading, when that sum is a \<open>u64\<close>), which is what
  the spec's overflow rule asks for.
\<close>

text \<open>\<open>u64::overflowing_add\<close>: the wrapped sum and the carry out of bit 63.\<close>

definition overflowing_add :: "u64 \<Rightarrow> u64 \<Rightarrow> u64 \<times> bool" where
  "overflowing_add a b = (a + b, 2 ^ 64 \<le> uint a + uint b)"

text \<open>
  \<open>u64::overflowing_add_signed\<close>: \<open>rhs as u64\<close> keeps the bits (both are
  \<open>64 word\<close> here), and the overflow flag is the carry XOR \<open>rhs < 0\<close>.
\<close>

definition overflowing_add_signed :: "u64 \<Rightarrow> i64 \<Rightarrow> u64 \<times> bool" where
  "overflowing_add_signed a rhs =
     (let (res, overflowed) = overflowing_add a rhs in (res, overflowed \<noteq> (sint rhs < 0)))"

definition checked_add_signed :: "u64 \<Rightarrow> i64 \<Rightarrow> u64 option" where
  "checked_add_signed a rhs =
     (let (res, b) = overflowing_add_signed a rhs in if b then None else Some res)"

text \<open>The contract: the exact sum, when it lies in the range of \<open>u64\<close>.\<close>

definition add_signed_spec :: "u64 \<Rightarrow> i64 \<Rightarrow> u64 option" where
  "add_signed_spec a d =
     (let r = uint a + sint d in if 0 \<le> r \<and> r < 2 ^ 64 then Some (word_of_int r) else None)"

subsection \<open>The carry decides overflow\<close>

lemma overflow_flag_nonneg:
  fixes a :: u64 and d :: i64
  assumes "0 \<le> sint d"
  shows "(2 ^ 64 \<le> uint a + uint d) = (\<not> (0 \<le> uint a + sint d \<and> uint a + sint d < 2 ^ 64))"
  using assms sint_nonneg_eq [of d] by auto

lemma overflow_flag_neg:
  fixes a :: u64 and d :: i64
  assumes "sint d < 0"
  shows "(2 ^ 64 \<le> uint a + uint d) = (0 \<le> uint a + sint d \<and> uint a + sint d < 2 ^ 64)"
proof -
  have d: "sint d = uint d - 2 ^ 64" using sint_neg_eq [OF assms] by simp
  have "uint a < 2 ^ 64" using uint_bounded [of a] by simp
  moreover have "uint d < 2 ^ 64" using uint_bounded [of d] by simp
  ultimately show ?thesis using d by auto
qed

lemma overflowing_add_signed_flag:
  "snd (overflowing_add_signed a d) = (\<not> (0 \<le> uint a + sint d \<and> uint a + sint d < 2 ^ 64))"
proof (cases "sint d < 0")
  case True
  then show ?thesis
    using overflow_flag_neg [of d a] by (simp add: overflowing_add_signed_def overflowing_add_def)
next
  case False
  then show ?thesis
    using overflow_flag_nonneg [of d a] by (simp add: overflowing_add_signed_def overflowing_add_def)
qed

lemma overflowing_add_signed_value: "fst (overflowing_add_signed a d) = a + d"
  by (simp add: overflowing_add_signed_def overflowing_add_def)

lemma checked_add_signed_unfold:
  "checked_add_signed a d =
     (if snd (overflowing_add_signed a d) then None else Some (fst (overflowing_add_signed a d)))"
  by (simp add: checked_add_signed_def split: prod.split)

subsection \<open>Equivalence with the contract, and its consequences\<close>

theorem checked_add_signed_eq_spec: "checked_add_signed a d = add_signed_spec a d"
  by (simp add: checked_add_signed_unfold overflowing_add_signed_flag
      overflowing_add_signed_value add_signed_spec_def Let_def)

lemma checked_add_signed_Some_iff:
  "checked_add_signed a d = Some r \<longleftrightarrow>
     0 \<le> uint a + sint d \<and> uint a + sint d < 2 ^ 64 \<and> uint r = uint a + sint d"
proof -
  have "uint (a + d) = uint a + sint d"
    if "0 \<le> uint a + sint d" "uint a + sint d < 2 ^ 64"
    using that uint_word_of_int_in_range [of "uint a + sint d", where 'a = 64] by simp
  then show ?thesis
    by (auto simp: checked_add_signed_eq_spec add_signed_spec_def Let_def word_uint_eq_iff)
qed

lemma checked_add_signed_None_iff:
  "checked_add_signed a d = None \<longleftrightarrow> uint a + sint d < 0 \<or> 2 ^ 64 \<le> uint a + sint d"
  by (auto simp: checked_add_signed_eq_spec add_signed_spec_def Let_def)

end
