(* ===== verification/Stack_Register.thy ===== *)
theory Stack_Register
  imports Registers Checked_Arith
begin

text \<open>
  The \<open>StackRegister\<close> trait (\<open>src/mips-runner/src/registers.rs\<close>, lines 11--25)
  and its impl for \<open>Unicorn<'a, Data>\<close> (lines 26--36). The trait's required
  methods \<open>sp\<close> and \<open>set_sp\<close> form a dictionary over the implementing type \<open>'s\<close>;
  its provided method \<open>incr_sp\<close> is defined once over any dictionary, as the
  default method is. Two contracts an implementation may meet are stated on the
  dictionary: reading the stack pointer back after a successful \<open>set_sp\<close> gives
  the written value, and a failed \<open>set_sp\<close> changes nothing. The generic lemmas
  about \<open>incr_sp\<close> rest on them; the Unicorn impl meets the second always and,
  on a healthy context, the first exactly when the emulated mode's registers are
  64 bits wide (C17).
\<close>

record 's stack_register =
  sr_sp :: "'s \<Rightarrow> uc_error + u64"
  sr_set_sp :: "u64 \<Rightarrow> ('s, uc_error, unit) mut_method"

text \<open>
  The provided method: read the stack pointer (\<open>?\<close> returns its error), add the
  delta with \<open>checked_add_signed\<close> (\<open>ok_or(EXCEPTION)?\<close> on overflow), write the
  result (\<open>?\<close> again) and return it.
\<close>

definition incr_sp :: "'s stack_register \<Rightarrow> i64 \<Rightarrow> ('s, uc_error, u64) mut_method" where
  "incr_sp self_impl delta s =
     (case sr_sp self_impl s of
        Inl err \<Rightarrow> (Inl err, s)
      | Inr cur \<Rightarrow>
          (case checked_add_signed cur delta of
             None \<Rightarrow> (Inl EXCEPTION, s)
           | Some new_sp \<Rightarrow>
               (case sr_set_sp self_impl new_sp s of
                  (Inl err, s') \<Rightarrow> (Inl err, s')
                | (Inr _, s') \<Rightarrow> (Inr new_sp, s'))))"

definition unicorn_sp :: "data unicorn \<Rightarrow> uc_error + u64" where
  "unicorn_sp u = (let sp_reg = sp (register_info (get_data u)) in unicorn_read u sp_reg)"

definition unicorn_set_sp :: "u64 \<Rightarrow> (data unicorn, uc_error, unit) mut_method" where
  "unicorn_set_sp value u = (let sp_reg = sp (register_info (get_data u)) in unicorn_write sp_reg value u)"

definition unicorn_stack_register :: "data unicorn stack_register" where
  "unicorn_stack_register = \<lparr>sr_sp = unicorn_sp, sr_set_sp = unicorn_set_sp\<rparr>"

declare unicorn_sp_def [uc_defs] unicorn_set_sp_def [uc_defs]

abbreviation sp_id :: "data unicorn \<Rightarrow> i32" where
  "sp_id u \<equiv> sp (register_info (get_data u))"

subsection \<open>Contracts on a \<open>StackRegister\<close> implementation\<close>

definition set_sp_read_back :: "'s stack_register \<Rightarrow> 's \<Rightarrow> bool" where
  "set_sp_read_back self_impl s \<longleftrightarrow>
     (\<forall>v s'. sr_set_sp self_impl v s = (Inr (), s') \<longrightarrow> sr_sp self_impl s' = Inr v)"

definition set_sp_atomic :: "'s stack_register \<Rightarrow> 's \<Rightarrow> bool" where
  "set_sp_atomic self_impl s \<longleftrightarrow>
     (\<forall>v err s'. sr_set_sp self_impl v s = (Inl err, s') \<longrightarrow> s' = s)"

subsection \<open>The provided method on every branch\<close>

lemma incr_sp_overflow:
  "sr_sp I s = Inr cur \<Longrightarrow> checked_add_signed cur d = None \<Longrightarrow> incr_sp I d s = (Inl EXCEPTION, s)"
  by (simp add: incr_sp_def)

lemma incr_sp_InrE:
  assumes "incr_sp I d s = (Inr r, s')"
  obtains cur where "sr_sp I s = Inr cur" "checked_add_signed cur d = Some r"
    "sr_set_sp I r s = (Inr (), s')"
  using assms
  by (auto simp: incr_sp_def split: sum.splits option.splits prod.splits)

lemma incr_sp_InlE:
  assumes "incr_sp I d s = (Inl err, s')"
  obtains (read) "sr_sp I s = Inl err" "s' = s"
    | (overflow) cur where "sr_sp I s = Inr cur" "checked_add_signed cur d = None"
        "err = EXCEPTION" "s' = s"
    | (set_failed) cur r where "sr_sp I s = Inr cur" "checked_add_signed cur d = Some r"
        "sr_set_sp I r s = (Inl err, s')"
  using assms
  by (cases "sr_sp I s"; cases "checked_add_signed (projr (sr_sp I s)) d")
    (auto simp: incr_sp_def split: sum.splits prod.splits)

subsection \<open>The Unicorn impl\<close>

lemma unicorn_sr_simps [simp]:
  "sr_sp unicorn_stack_register = unicorn_sp"
  "sr_set_sp unicorn_stack_register = unicorn_set_sp"
  by (simp_all add: unicorn_stack_register_def)

lemma unicorn_set_sp_atomic: "set_sp_atomic unicorn_stack_register u"
  by (auto simp: set_sp_atomic_def unicorn_set_sp_def Let_def dest: unicorn_write_Inl)

lemma unicorn_set_sp_read_back_wide:
  "64 \<le> mode_bits u \<Longrightarrow> set_sp_read_back unicorn_stack_register u"
  by (auto simp: set_sp_read_back_def unicorn_set_sp_def unicorn_sp_def Let_def
      take_bit_word_eq_self unicorn_write_data dest: unicorn_write_read_same)

lemma unicorn_sp_eq:
  "unicorn_sp u =
     (if uc_status (uc u) \<noteq> OK then Inl (uc_status (uc u))
      else case uc_regs (uc u) (sp_id u) of None \<Rightarrow> Inl ARG | Some v \<Rightarrow> Inr v)"
  by (simp add: unicorn_sp_def unicorn_read_eq)

subsection \<open>The behaviour of \<open>incr_sp\<close>\<close>

text \<open>
  \<open>incr_sp\<close> on a Unicorn context, on every branch, in terms of the engine.
\<close>

lemma unicorn_incr_sp_eq:
  "incr_sp unicorn_stack_register d u =
     (if uc_status (uc u) \<noteq> OK then (Inl (uc_status (uc u)), u)
      else case uc_regs (uc u) (sp_id u) of
        None \<Rightarrow> (Inl ARG, u)
      | Some cur \<Rightarrow>
          if 0 \<le> uint cur + sint d \<and> uint cur + sint d < 2 ^ 64
          then (Inr (cur + d),
                u\<lparr>uc := uc u\<lparr>uc_regs := (uc_regs (uc u))(sp_id u \<mapsto> take_bit (mode_bits u) (cur + d))\<rparr>\<rparr>)
          else (Inl EXCEPTION, u))"
  by (auto simp: incr_sp_def unicorn_sp_eq unicorn_set_sp_def Let_def unicorn_write_eq
      checked_add_signed_eq_spec add_signed_spec_def domIff split: option.splits)

lemma unicorn_incr_sp_InrD:
  assumes "incr_sp unicorn_stack_register d u = (Inr r, u')"
  obtains cur where "uc_status (uc u) = OK" "uc_regs (uc u) (sp_id u) = Some cur"
    "0 \<le> uint cur + sint d" "uint cur + sint d < 2 ^ 64" "r = cur + d"
    "u' = u\<lparr>uc := uc u\<lparr>uc_regs := (uc_regs (uc u))(sp_id u \<mapsto> take_bit (mode_bits u) (cur + d))\<rparr>\<rparr>"
  using assms by (auto simp: unicorn_incr_sp_eq split: if_splits option.splits)

lemma uint_add_sint_in_range:
  "0 \<le> uint cur + sint d \<Longrightarrow> uint cur + sint d < 2 ^ 64 \<Longrightarrow> uint (cur + d) = uint cur + sint (d::i64)"
  using checked_add_signed_Some_iff [of cur d "cur + d"]
  by (simp add: checked_add_signed_eq_spec add_signed_spec_def)

text \<open>
  C1. \<open>incr_sp\<close> on a Unicorn context, on every branch: an error of \<open>sp()\<close> is
  returned unchanged with the context unchanged; when \<open>sp + delta\<close> leaves the
  range of \<open>u64\<close> the result is \<open>EXCEPTION\<close> with the context unchanged;
  otherwise the exact sum is returned and the context is the one \<open>write\<close> of that
  sum to the configured SP register gives (which cannot fail after \<open>sp()\<close> did
  not).
\<close>

theorem incr_sp_unicorn_behaviour:
  "incr_sp unicorn_stack_register d u =
     (case unicorn_sp u of
        Inl err \<Rightarrow> (Inl err, u)
      | Inr cur \<Rightarrow>
          if 0 \<le> uint cur + sint d \<and> uint cur + sint d < 2 ^ 64
          then (Inr (cur + d), snd (unicorn_write (sp_id u) (cur + d) u))
          else (Inl EXCEPTION, u))"
  by (auto simp: unicorn_incr_sp_eq unicorn_sp_eq unicorn_write_eq split: option.splits)

text \<open>
  C2. Overflow is detected before any write: for any implementation of the
  trait, when the current stack pointer plus the delta is not a \<open>u64\<close>,
  \<open>incr_sp\<close> fails with \<open>EXCEPTION\<close> and leaves the state as it was.
\<close>

theorem incr_sp_overflow_unchanged:
  assumes "sr_sp I s = Inr cur" and "uint cur + sint d < 0 \<or> 2 ^ 64 \<le> uint cur + sint d"
  shows "incr_sp I d s = (Inl EXCEPTION, s)"
  using assms by (simp add: incr_sp_overflow checked_add_signed_None_iff)

theorem incr_sp_overflow_unchanged_witness:
  "sr_sp unicorn_stack_register (example_ctx 64 0 0) = Inr 0 \<and>
   (uint (0::u64) + sint (-1::i64) < 0 \<or> 2 ^ 64 \<le> uint (0::u64) + sint (-1::i64)) \<and>
   incr_sp unicorn_stack_register (-1) (example_ctx 64 0 0) = (Inl EXCEPTION, example_ctx 64 0 0)"
proof -
  have sp: "sr_sp unicorn_stack_register (example_ctx 64 0 0) = Inr 0"
    by (simp add: unicorn_sp_eq example_defs)
  have ov: "uint (0::u64) + sint (-1::i64) < 0 \<or> 2 ^ 64 \<le> uint (0::u64) + sint (-1::i64)"
    by simp
  show ?thesis using sp ov incr_sp_overflow_unchanged [OF sp ov] by simp
qed

text \<open>
  C3. The interface contract carries over to \<open>incr_sp\<close>: for any
  implementation whose \<open>set_sp\<close> reads back, a successful \<open>incr_sp\<close> returns the
  exact sum of the old stack pointer and the delta, and \<open>sp()\<close> afterwards
  reads that value.
\<close>

theorem incr_sp_read_back:
  assumes "set_sp_read_back I s" and "incr_sp I d s = (Inr r, s')"
  shows "sr_sp I s' = Inr r \<and> (\<exists>cur. sr_sp I s = Inr cur \<and> uint r = uint cur + sint d)"
proof -
  obtain cur where cur: "sr_sp I s = Inr cur" and add: "checked_add_signed cur d = Some r"
    and set: "sr_set_sp I r s = (Inr (), s')"
    using assms(2) by (rule incr_sp_InrE)
  have "sr_sp I s' = Inr r" using assms(1) set by (simp add: set_sp_read_back_def)
  moreover have "uint r = uint cur + sint d" using add by (simp add: checked_add_signed_Some_iff)
  ultimately show ?thesis using cur by blast
qed

theorem incr_sp_read_back_witness:
  "set_sp_read_back unicorn_stack_register (example_ctx 64 0 4096) \<and>
   incr_sp unicorn_stack_register 16 (example_ctx 64 0 4096) = (Inr 4112, example_ctx 64 0 4112) \<and>
   unicorn_sp (example_ctx 64 0 4112) = Inr 4112"
proof -
  have rb: "set_sp_read_back unicorn_stack_register (example_ctx 64 0 4096)"
    by (rule unicorn_set_sp_read_back_wide) (simp add: example_defs)
  have run: "incr_sp unicorn_stack_register 16 (example_ctx 64 0 4096) = (Inr 4112, example_ctx 64 0 4112)"
    by (simp add: unicorn_incr_sp_eq example_defs fun_upd_twist)
  show ?thesis using rb run incr_sp_read_back [OF rb run] by simp
qed

text \<open>
  C4. \<open>incr_sp\<close> is all-or-nothing: for any implementation whose failing
  \<open>set_sp\<close> changes nothing, a failing \<open>incr_sp\<close> (read error, overflow, or
  write error) leaves the state exactly as it was.
\<close>

theorem incr_sp_atomic:
  assumes "set_sp_atomic I s" and "incr_sp I d s = (Inl err, s')"
  shows "s' = s"
  using assms(2)
proof (cases rule: incr_sp_InlE)
  case (set_failed cur r)
  then show ?thesis using assms(1) by (simp add: set_sp_atomic_def)
qed simp_all

theorem incr_sp_atomic_witness:
  "set_sp_atomic unicorn_stack_register (example_ctx 64 0 0) \<and>
   incr_sp unicorn_stack_register (-1) (example_ctx 64 0 0) = (Inl EXCEPTION, example_ctx 64 0 0)"
proof -
  have at: "set_sp_atomic unicorn_stack_register (example_ctx 64 0 0)"
    by (rule unicorn_set_sp_atomic)
  have run: "incr_sp unicorn_stack_register (-1) (example_ctx 64 0 0) = (Inl EXCEPTION, example_ctx 64 0 0)"
    by (simp add: unicorn_incr_sp_eq example_defs)
  show ?thesis using at run incr_sp_atomic [OF at run] by simp
qed

text \<open>
  C5. The spec's stack-pointer property on a 64-bit context: when the current
  stack pointer \<open>s\<close> plus the delta \<open>d\<close> is a \<open>u64\<close>, \<open>incr_sp(d)\<close> succeeds,
  returns \<open>s + d\<close> (the exact sum), and \<open>sp()\<close> afterwards returns \<open>s + d\<close>.
\<close>

theorem unicorn_incr_sp_wide:
  assumes "64 \<le> mode_bits u" and "unicorn_sp u = Inr cur"
    and "0 \<le> uint cur + sint d" and "uint cur + sint d < 2 ^ 64"
  shows "\<exists>u'. incr_sp unicorn_stack_register d u = (Inr (cur + d), u') \<and>
    unicorn_sp u' = Inr (cur + d) \<and> uint (cur + d) = uint cur + sint d"
proof -
  from assms(2) have ok: "uc_status (uc u) = OK" and reg: "uc_regs (uc u) (sp_id u) = Some cur"
    by (simp_all add: unicorn_sp_eq split: if_splits option.splits)
  define u' where "u' = u\<lparr>uc := uc u\<lparr>uc_regs := (uc_regs (uc u))(sp_id u \<mapsto> take_bit (mode_bits u) (cur + d))\<rparr>\<rparr>"
  have run: "incr_sp unicorn_stack_register d u = (Inr (cur + d), u')"
    using ok reg assms(3,4) by (simp add: unicorn_incr_sp_eq u'_def)
  have "unicorn_sp u' = Inr (cur + d)"
    using ok assms(1) by (simp add: unicorn_sp_eq u'_def get_data_def take_bit_word_eq_self)
  moreover have "uint (cur + d) = uint cur + sint d"
    using assms(3,4) by (rule uint_add_sint_in_range)
  ultimately show ?thesis using run by blast
qed

theorem unicorn_incr_sp_wide_witness:
  "64 \<le> mode_bits (example_ctx 64 0 4096) \<and> unicorn_sp (example_ctx 64 0 4096) = Inr 4096 \<and>
   0 \<le> uint (4096::u64) + sint (-16::i64) \<and> uint (4096::u64) + sint (-16::i64) < 2 ^ 64 \<and>
   (\<exists>u'. incr_sp unicorn_stack_register (-16) (example_ctx 64 0 4096) = (Inr 4080, u') \<and>
     unicorn_sp u' = Inr 4080)"
proof -
  have h1: "64 \<le> mode_bits (example_ctx 64 0 4096)" by (simp add: example_defs)
  have h2: "unicorn_sp (example_ctx 64 0 4096) = Inr 4096" by (simp add: unicorn_sp_eq example_defs)
  have h3: "0 \<le> uint (4096::u64) + sint (-16::i64)" by simp
  have h4: "uint (4096::u64) + sint (-16::i64) < 2 ^ 64" by simp
  show ?thesis using h1 h2 h3 h4 unicorn_incr_sp_wide [OF h1 h2 h3 h4] by simp
qed

text \<open>
  C6. What \<open>sp()\<close> reads after a successful \<open>incr_sp\<close> on a Unicorn context is
  the returned stack pointer cut to the register width of the emulated mode.
  In a 32-bit mode (MIPS32) the two differ whenever the sum passes \<open>2^32\<close>:
  the overflow check is made on 64 bits, the engine keeps 32.
\<close>

theorem unicorn_incr_sp_truncates:
  assumes "incr_sp unicorn_stack_register d u = (Inr r, u')"
  shows "unicorn_sp u' = Inr (take_bit (mode_bits u) r)"
  using assms
  by (auto simp: unicorn_incr_sp_eq unicorn_sp_eq get_data_def split: if_splits option.splits)

theorem unicorn_incr_sp_truncates_witness:
  "incr_sp unicorn_stack_register 32 (example_ctx 32 0 4294967280) =
     (Inr 4294967312, example_ctx 32 0 16) \<and>
   unicorn_sp (example_ctx 32 0 16) = Inr (take_bit 32 4294967312) \<and>
   take_bit 32 (4294967312::u64) = 16"
proof -
  have run: "incr_sp unicorn_stack_register 32 (example_ctx 32 0 4294967280) =
     (Inr 4294967312, example_ctx 32 0 16)"
    by (simp add: unicorn_incr_sp_eq example_defs fun_upd_twist)
  have "mode_bits (example_ctx 32 0 4294967280) = 32" by (simp add: example_defs)
  then show ?thesis using run unicorn_incr_sp_truncates [OF run] by simp
qed

text \<open>
  C17. On a healthy context whose configured SP id is a register, the Unicorn
  impl meets the read-back contract that the generic \<open>incr_sp\<close> lemmas (C3) rest
  on exactly when the mode's registers are 64 bits wide: in a narrower mode,
  \<open>set_sp(2^w)\<close> succeeds and \<open>sp()\<close> then reads 0.
\<close>

theorem unicorn_set_sp_read_back_iff:
  assumes "uc_status (uc u) = OK" and "sp_id u \<in> dom (uc_regs (uc u))"
  shows "set_sp_read_back unicorn_stack_register u \<longleftrightarrow> 64 \<le> mode_bits u"
proof
  assume rb: "set_sp_read_back unicorn_stack_register u"
  show "64 \<le> mode_bits u"
  proof (rule ccontr)
    assume "\<not> 64 \<le> mode_bits u"
    then have lt: "mode_bits u < 64" by simp
    let ?v = "(2::u64) ^ mode_bits u"
    have "unicorn_sp (snd (unicorn_set_sp ?v u)) = Inr ?v"
      using rb assms by (simp add: set_sp_read_back_def unicorn_set_sp_def unicorn_write_eq)
    moreover have "unicorn_sp (snd (unicorn_set_sp ?v u)) = Inr (take_bit (mode_bits u) ?v)"
      using assms by (simp add: unicorn_set_sp_def unicorn_write_eq unicorn_sp_eq get_data_def)
    ultimately show False using take_bit_exp_self_ne [of "mode_bits u", where 'a = 64] lt by simp
  qed
next
  assume "64 \<le> mode_bits u"
  then show "set_sp_read_back unicorn_stack_register u" by (rule unicorn_set_sp_read_back_wide)
qed

theorem unicorn_set_sp_read_back_iff_witness:
  "uc_status (uc (example_ctx 32 0 0)) = OK \<and> sp_id (example_ctx 32 0 0) \<in> dom (uc_regs (uc (example_ctx 32 0 0))) \<and>
   \<not> set_sp_read_back unicorn_stack_register (example_ctx 32 0 0)"
proof -
  have ok: "uc_status (uc (example_ctx 32 0 0)) = OK" by (simp add: example_defs)
  have d: "sp_id (example_ctx 32 0 0) \<in> dom (uc_regs (uc (example_ctx 32 0 0)))" by (simp add: example_defs)
  have "mode_bits (example_ctx 32 0 0) = 32" by (simp add: example_defs)
  then show ?thesis using ok d unicorn_set_sp_read_back_iff [OF ok d] by simp
qed

end
