(* ===== verification/Emulation.thy ===== *)
theory Emulation
  imports Stack_Register
begin

text \<open>
  The register layer as the emulation driver sees it (spec, sections 2 and 7):
  a sequence of calls on the two capabilities, interleaved with instruction
  steps of the engine, where the driver treats any error as fatal to the current
  step. \<open>reg_call\<close> names the seven methods of \<open>Registers\<close> and
  \<open>StackRegister\<close>; \<open>call\<close> dispatches one of them through the trait
  dictionaries, so it runs on any implementation; \<open>run_calls\<close> runs a sequence
  and stops at the first error. \<open>emu_step\<close> is an instruction step of the
  engine: the registers change to any values of the mode's width, and the
  register set, the mode and the attached data stay; or the engine enters a
  fault state, after which every register access reports that error. \<open>driver_step\<close> is either,
  and \<open>reachable\<close> closes a start context under it.
  The abstract register file these runs refine is in \<open>Abstract_Register_File\<close>.
\<close>

datatype reg_call =
    Read i32 | Write i32 u64 | Pc | SetPc u64
  | Sp | SetSp u64 | IncrSp i64

datatype reply = Value u64 | Done

definition call ::
  "'s registers \<Rightarrow> 's stack_register \<Rightarrow> reg_call \<Rightarrow> ('s, uc_error, reply) mut_method" where
  "call R S c s =
     (case c of
        Read r \<Rightarrow> (map_sum id Value (rg_read R s r), s)
      | Write r v \<Rightarrow> apfst (map_sum id (\<lambda>_. Done)) (rg_write R r v s)
      | Pc \<Rightarrow> (map_sum id Value (rg_pc R s), s)
      | SetPc v \<Rightarrow> apfst (map_sum id (\<lambda>_. Done)) (rg_set_pc R v s)
      | Sp \<Rightarrow> (map_sum id Value (sr_sp S s), s)
      | SetSp v \<Rightarrow> apfst (map_sum id (\<lambda>_. Done)) (sr_set_sp S v s)
      | IncrSp d \<Rightarrow> apfst (map_sum id Value) (incr_sp S d s))"

fun run_calls ::
  "'s registers \<Rightarrow> 's stack_register \<Rightarrow> reg_call list \<Rightarrow> ('s, uc_error, reply list) mut_method" where
  "run_calls R S [] s = (Inr [], s)"
| "run_calls R S (c # cs) s =
     (case call R S c s of
        (Inl err, s') \<Rightarrow> (Inl err, s')
      | (Inr x, s') \<Rightarrow>
          (case run_calls R S cs s' of
             (Inl err, s'') \<Rightarrow> (Inl err, s'')
           | (Inr xs, s'') \<Rightarrow> (Inr (x # xs), s'')))"

abbreviation unicorn_call :: "reg_call \<Rightarrow> (data unicorn, uc_error, reply) mut_method" where
  "unicorn_call \<equiv> call unicorn_registers unicorn_stack_register"

abbreviation unicorn_run :: "reg_call list \<Rightarrow> (data unicorn, uc_error, reply list) mut_method" where
  "unicorn_run \<equiv> run_calls unicorn_registers unicorn_stack_register"

inductive emu_step :: "uc_engine \<Rightarrow> uc_engine \<Rightarrow> bool" where
  exec: "uc_mode_bits e' = uc_mode_bits e \<Longrightarrow> dom (uc_regs e') = dom (uc_regs e) \<Longrightarrow>
    uc_status e' = uc_status e \<Longrightarrow> uc_wf e' \<Longrightarrow> emu_step e e'"
| fault: "err \<noteq> OK \<Longrightarrow> emu_step e (e\<lparr>uc_status := err\<rparr>)"

inductive driver_step :: "data unicorn \<Rightarrow> data unicorn \<Rightarrow> bool" where
  reg_call: "snd (unicorn_call c u) = u' \<Longrightarrow> driver_step u u'"
| instruction: "emu_step (uc u) e' \<Longrightarrow> driver_step u (u\<lparr>uc := e'\<rparr>)"

inductive reachable :: "data unicorn \<Rightarrow> data unicorn \<Rightarrow> bool" for u0 where
  start: "reachable u0 u0"
| step: "reachable u0 u \<Longrightarrow> driver_step u u' \<Longrightarrow> reachable u0 u'"

text \<open>
  What no call and no instruction step changes: the attached data (so the
  \<open>RegisterInfo\<close>), the mode, the register set, and well-formedness of the
  register values. (The status is kept by calls, not by a faulting step.)
\<close>

definition ctx_frame :: "data unicorn \<Rightarrow> data unicorn \<Rightarrow> bool" where
  "ctx_frame u u' \<longleftrightarrow>
     get_data u' = get_data u \<and> mode_bits u' = mode_bits u \<and>
     dom (uc_regs (uc u')) = dom (uc_regs (uc u)) \<and> (uc_wf (uc u) \<longrightarrow> uc_wf (uc u'))"

text \<open>The register a call addresses, resolved through \<open>RegisterInfo\<close>.\<close>

fun call_reg :: "register_info \<Rightarrow> reg_call \<Rightarrow> i32" where
  "call_reg ri (Read r) = r"
| "call_reg ri (Write r v) = r"
| "call_reg ri Pc = pc ri"
| "call_reg ri (SetPc v) = pc ri"
| "call_reg ri Sp = sp ri"
| "call_reg ri (SetSp v) = sp ri"
| "call_reg ri (IncrSp d) = sp ri"

subsection \<open>Frame of calls and instruction steps\<close>

lemma ctx_frame_refl [simp]: "ctx_frame u u"
  by (simp add: ctx_frame_def)

lemma ctx_frame_trans: "ctx_frame u u' \<Longrightarrow> ctx_frame u' u'' \<Longrightarrow> ctx_frame u u''"
  by (simp add: ctx_frame_def)

lemma unicorn_write_ctx_frame: "ctx_frame u (snd (unicorn_write r v u))"
proof -
  have w: "unicorn_write r v u = (fst (unicorn_write r v u), snd (unicorn_write r v u))" by simp
  show ?thesis
    using unicorn_write_engine [OF w] unicorn_write_data [OF w] unicorn_write_mode [OF w]
    by (simp add: ctx_frame_def)
qed

lemma unicorn_incr_sp_ctx_frame: "ctx_frame u (snd (incr_sp unicorn_stack_register d u))"
proof (cases "incr_sp unicorn_stack_register d u")
  case (Pair res u')
  show ?thesis
  proof (cases res)
    case (Inl err)
    with Pair have "incr_sp unicorn_stack_register d u = (Inl err, u')" by simp
    then show ?thesis
    proof (cases rule: incr_sp_InlE)
      case (set_failed cur r)
      then show ?thesis using Pair unicorn_write_ctx_frame [of u "sp_id u" r]
        by (simp add: unicorn_set_sp_def)
    qed (simp_all add: Pair)
  next
    case (Inr r)
    with Pair have "incr_sp unicorn_stack_register d u = (Inr r, u')" by simp
    then show ?thesis
    proof (rule incr_sp_InrE)
      fix cur assume "sr_set_sp unicorn_stack_register r u = (Inr (), u')"
      then show ?thesis using Pair unicorn_write_ctx_frame [of u "sp_id u" r]
        by (simp add: unicorn_set_sp_def)
    qed
  qed
qed

lemma unicorn_call_ctx_frame: "ctx_frame u (snd (unicorn_call c u))"
  by (cases c)
    (simp_all add: call_def unicorn_registers_def unicorn_set_pc_def unicorn_set_sp_def Let_def
      unicorn_write_ctx_frame unicorn_incr_sp_ctx_frame)

lemma unicorn_call_status: "uc_status (uc (snd (unicorn_call c u))) = uc_status (uc u)"
proof -
  have w: "uc_status (uc (snd (unicorn_write r v u))) = uc_status (uc u)" for r v
    by (simp add: unicorn_write_eq)
  have i: "uc_status (uc (snd (incr_sp unicorn_stack_register d u))) = uc_status (uc u)" for d
    by (simp add: unicorn_incr_sp_eq split: option.splits)
  show ?thesis
    by (cases c) (simp_all add: call_def unicorn_registers_def unicorn_set_pc_def
        unicorn_set_sp_def Let_def w i)
qed

lemma emu_step_ctx_frame: "emu_step (uc u) e' \<Longrightarrow> ctx_frame u (u\<lparr>uc := e'\<rparr>)"
  by (erule emu_step.cases) (simp_all add: ctx_frame_def get_data_def uc_wf_def)

lemma driver_step_ctx_frame: "driver_step u u' \<Longrightarrow> ctx_frame u u'"
  by (induction rule: driver_step.induct) (auto intro: unicorn_call_ctx_frame emu_step_ctx_frame)

lemma reachable_ctx_frame: "reachable u0 u \<Longrightarrow> ctx_frame u0 u"
  by (induction rule: reachable.induct) (auto intro: ctx_frame_trans driver_step_ctx_frame)

subsection \<open>Faults, and the invariant at work\<close>

text \<open>
  C15. Once the engine is in a fault state, every call of the two capabilities
  fails with the engine's error, unchanged, and leaves the context as it was:
  errors are surfaced, never recovered or translated (spec, section 7).
\<close>

theorem faulted_calls_fail:
  assumes "uc_status (uc u) \<noteq> OK"
  shows "unicorn_call c u = (Inl (uc_status (uc u)), u)"
  using assms
  by (cases c) (simp_all add: call_def unicorn_registers_def unicorn_read_eq unicorn_write_eq
      unicorn_pc_def unicorn_set_pc_def unicorn_sp_eq unicorn_set_sp_def unicorn_incr_sp_eq Let_def)

theorem faulted_calls_fail_witness:
  "emu_step (uc (example_ctx 64 0 0)) ((uc (example_ctx 64 0 0))\<lparr>uc_status := EXCEPTION\<rparr>) \<and>
   uc_status ((uc (example_ctx 64 0 0))\<lparr>uc_status := EXCEPTION\<rparr>) \<noteq> OK \<and>
   unicorn_call (IncrSp 8) ((example_ctx 64 0 0)\<lparr>uc := (uc (example_ctx 64 0 0))\<lparr>uc_status := EXCEPTION\<rparr>\<rparr>) =
     (Inl EXCEPTION, (example_ctx 64 0 0)\<lparr>uc := (uc (example_ctx 64 0 0))\<lparr>uc_status := EXCEPTION\<rparr>\<rparr>)"
proof -
  have st: "emu_step (uc (example_ctx 64 0 0)) ((uc (example_ctx 64 0 0))\<lparr>uc_status := EXCEPTION\<rparr>)"
    by (rule emu_step.fault) simp
  have f: "uc_status (uc ((example_ctx 64 0 0)\<lparr>uc := (uc (example_ctx 64 0 0))\<lparr>uc_status := EXCEPTION\<rparr>\<rparr>)) \<noteq> OK"
    by simp
  show ?thesis using st f faulted_calls_fail [OF f, of "IncrSp 8"] by simp
qed

text \<open>
  C16. In every context reachable from a well-formed start, \<open>incr_sp(0)\<close>
  returns the current stack pointer and changes nothing, in any mode: the value
  written back is already of the register's width, by the invariant.
\<close>

theorem reachable_incr_sp_zero:
  assumes "reachable u0 u" and "uc_wf (uc u0)" and "unicorn_sp u = Inr cur"
  shows "incr_sp unicorn_stack_register 0 u = (Inr cur, u)"
proof -
  have wf: "uc_wf (uc u)" using reachable_ctx_frame [OF assms(1)] assms(2) by (simp add: ctx_frame_def)
  from assms(3) have ok: "uc_status (uc u) = OK" and reg: "uc_regs (uc u) (sp_id u) = Some cur"
    by (simp_all add: unicorn_sp_eq split: if_splits option.splits)
  have fits: "take_bit (mode_bits u) cur = cur"
    using wf reg by (auto simp: uc_wf_def ran_def)
  show ?thesis
    using ok reg fits uint_bounded [of cur] uint_ge_0 [of cur]
    by (simp add: unicorn_incr_sp_eq fun_upd_idem)
qed

theorem reachable_incr_sp_zero_witness:
  "reachable (example_ctx 32 0 4096) (example_ctx 32 0 4096) \<and> uc_wf (uc (example_ctx 32 0 4096)) \<and>
   unicorn_sp (example_ctx 32 0 4096) = Inr 4096 \<and>
   incr_sp unicorn_stack_register 0 (example_ctx 32 0 4096) = (Inr 4096, example_ctx 32 0 4096)"
proof -
  have r: "reachable (example_ctx 32 0 4096) (example_ctx 32 0 4096)" by (rule reachable.start)
  have wf: "uc_wf (uc (example_ctx 32 0 4096))"
    by (auto simp: uc_wf_def example_defs ran_def split: if_splits)
  have sp: "unicorn_sp (example_ctx 32 0 4096) = Inr 4096" by (simp add: unicorn_sp_eq example_defs)
  show ?thesis using r wf sp reachable_incr_sp_zero [OF r wf sp] by simp
qed

subsection \<open>Progress of runs\<close>

lemma unicorn_call_progress:
  assumes "uc_status (uc u) = OK" and "call_reg (register_info (get_data u)) c \<in> dom (uc_regs (uc u))"
  shows "(\<exists>x u'. unicorn_call c u = (Inr x, u')) \<or>
    (\<exists>d cur. c = IncrSp d \<and> unicorn_call c u = (Inl EXCEPTION, u) \<and> unicorn_sp u = Inr cur \<and>
       \<not> (0 \<le> uint cur + sint d \<and> uint cur + sint d < 2 ^ 64))"
  using assms
  by (cases c) (auto simp: call_def unicorn_registers_def unicorn_read_eq unicorn_write_eq
      unicorn_pc_def unicorn_set_pc_def unicorn_sp_eq unicorn_set_sp_def unicorn_incr_sp_eq Let_def
      split: if_splits)

lemma unicorn_call_keeps_access:
  assumes "unicorn_call c u = (r, u')"
  shows "uc_status (uc u') = uc_status (uc u) \<and> get_data u' = get_data u \<and>
    dom (uc_regs (uc u')) = dom (uc_regs (uc u))"
  using unicorn_call_status [of c u] unicorn_call_ctx_frame [of u c] assms
  by (simp add: ctx_frame_def)

text \<open>
  C20. Runs make progress: on a context whose engine is not in a fault state,
  a run of calls that all address registers of the engine either executes
  every call and returns one reply per call, or stops at an \<open>incr_sp(d)\<close>
  whose sum with the stack pointer read at that point leaves the range of
  \<open>u64\<close>: the calls before it succeeded, and the run returns \<open>EXCEPTION\<close> in
  the context they left. No other error (\<open>ARG\<close>, a status error) can stop it,
  in any mode.
\<close>

theorem unicorn_run_progress:
  assumes "uc_status (uc u) = OK"
    and "\<forall>c \<in> set cs. call_reg (register_info (get_data u)) c \<in> dom (uc_regs (uc u))"
  shows "(\<exists>xs u'. unicorn_run cs u = (Inr xs, u') \<and> length xs = length cs) \<or>
    (\<exists>cs1 d cs2 xs u1 cur. cs = cs1 @ IncrSp d # cs2 \<and> unicorn_run cs1 u = (Inr xs, u1) \<and>
       unicorn_sp u1 = Inr cur \<and> \<not> (0 \<le> uint cur + sint d \<and> uint cur + sint d < 2 ^ 64) \<and>
       unicorn_run cs u = (Inl EXCEPTION, u1))"
  using assms
proof (induction cs arbitrary: u)
  case Nil
  then show ?case by simp
next
  case (Cons c cs)
  have reg: "call_reg (register_info (get_data u)) c \<in> dom (uc_regs (uc u))" using Cons.prems(2) by simp
  consider (ok) x u' where "unicorn_call c u = (Inr x, u')"
    | (overflow) d cur where "c = IncrSp d" "unicorn_call c u = (Inl EXCEPTION, u)"
        "unicorn_sp u = Inr cur" "\<not> (0 \<le> uint cur + sint d \<and> uint cur + sint d < 2 ^ 64)"
    using unicorn_call_progress [OF Cons.prems(1) reg] by blast
  then show ?case
  proof cases
    case ok
    note keep = unicorn_call_keeps_access [OF ok]
    have st: "uc_status (uc u') = OK"
      and regs: "\<forall>c \<in> set cs. call_reg (register_info (get_data u')) c \<in> dom (uc_regs (uc u'))"
      using keep Cons.prems by simp_all
    from Cons.IH [OF st regs] show ?thesis
    proof
      assume "\<exists>xs u''. unicorn_run cs u' = (Inr xs, u'') \<and> length xs = length cs"
      then show ?thesis using ok by auto
    next
      assume "\<exists>cs1 d cs2 xs u1 cur. cs = cs1 @ IncrSp d # cs2 \<and> unicorn_run cs1 u' = (Inr xs, u1) \<and>
        unicorn_sp u1 = Inr cur \<and> \<not> (0 \<le> uint cur + sint d \<and> uint cur + sint d < 2 ^ 64) \<and>
        unicorn_run cs u' = (Inl EXCEPTION, u1)"
      then obtain cs1 d cs2 xs u1 cur where split: "cs = cs1 @ IncrSp d # cs2"
        and pre: "unicorn_run cs1 u' = (Inr xs, u1)" and sp: "unicorn_sp u1 = Inr cur"
        and out: "\<not> (0 \<le> uint cur + sint d \<and> uint cur + sint d < 2 ^ 64)"
        and run: "unicorn_run cs u' = (Inl EXCEPTION, u1)"
        by blast
      have "c # cs = (c # cs1) @ IncrSp d # cs2" using split by simp
      moreover have "unicorn_run (c # cs1) u = (Inr (x # xs), u1)" using ok pre by simp
      moreover have "unicorn_run (c # cs) u = (Inl EXCEPTION, u1)" using ok run by simp
      ultimately show ?thesis using sp out by blast
    qed
  next
    case overflow
    then have "c # cs = [] @ IncrSp d # cs" and "unicorn_run [] u = (Inr [], u)"
      and "unicorn_run (c # cs) u = (Inl EXCEPTION, u)" by simp_all
    then show ?thesis using overflow(3,4) by blast
  qed
qed

theorem unicorn_run_progress_witness:
  "uc_status (uc (example_ctx 32 0 4096)) = OK \<and>
   call_reg (register_info (get_data (example_ctx 32 0 4096))) ` set [Read 2, IncrSp (-16), Sp]
     \<subseteq> dom (uc_regs (uc (example_ctx 32 0 4096))) \<and>
   unicorn_run [Read 2, IncrSp (-16), Sp] (example_ctx 32 0 4096) =
     (Inr [Value 0, Value 4080, Value 4080], example_ctx 32 0 4080)"
proof -
  have ok: "uc_status (uc (example_ctx 32 0 4096)) = OK" by (simp add: example_defs)
  have regs: "\<forall>c \<in> set [Read 2, IncrSp (-16), Sp].
      call_reg (register_info (get_data (example_ctx 32 0 4096))) c \<in> dom (uc_regs (uc (example_ctx 32 0 4096)))"
    by (simp add: example_defs)
  have run: "unicorn_run [Read 2, IncrSp (-16), Sp] (example_ctx 32 0 4096) =
     (Inr [Value 0, Value 4080, Value 4080], example_ctx 32 0 4080)"
    by (simp add: call_def unicorn_registers_def unicorn_read_eq unicorn_incr_sp_eq unicorn_sp_eq
        example_defs fun_upd_twist)
  have sub: "call_reg (register_info (get_data (example_ctx 32 0 4096))) ` set [Read 2, IncrSp (-16), Sp]
     \<subseteq> dom (uc_regs (uc (example_ctx 32 0 4096)))"
    by (simp add: example_defs)
  show ?thesis using ok sub run unicorn_run_progress [OF ok regs] by simp
qed

end
