(* ===== verification/Abstract_Register_File.thy ===== *)
theory Abstract_Register_File
  imports Emulation
begin

text \<open>
  The abstract register file the spec describes (sections 3, 4 and 8), and the
  refinement of it by the Unicorn impl of the two capabilities. \<open>spec_call\<close>
  is a map from register ids to 64-bit values with named accessors through
  \<open>RegisterInfo\<close> and the stack-pointer increment in exact integer arithmetic;
  on a healthy context in a 64-bit mode the Unicorn impl refines it call by call
  and over whole runs (C8). \<open>spec_call_w\<close> is the same register file for a
  mode whose registers are \<open>w\<close> bits wide, the register-value model of spec
  section 3: a register keeps the low \<open>w\<close> bits of what is written, and
  \<open>incr_sp\<close> returns the exact sum while the register keeps its low bits. The
  Unicorn impl refines it in every mode on a healthy engine (C23).
\<close>

subsection \<open>The register file of the spec\<close>

definition spec_incr :: "u64 \<Rightarrow> i64 \<Rightarrow> uc_error + u64" where
  "spec_incr cur d =
     (let n = uint cur + sint d in if 0 \<le> n \<and> n < 2 ^ 64 then Inr (word_of_int n) else Inl EXCEPTION)"

definition spec_write :: "i32 \<Rightarrow> u64 \<Rightarrow> (i32 \<rightharpoonup> u64) \<Rightarrow> (uc_error + reply) \<times> (i32 \<rightharpoonup> u64)" where
  "spec_write r v m = (if r \<in> dom m then (Inr Done, m(r \<mapsto> v)) else (Inl ARG, m))"

definition spec_read :: "(i32 \<rightharpoonup> u64) \<Rightarrow> i32 \<Rightarrow> uc_error + reply" where
  "spec_read m r = (case m r of None \<Rightarrow> Inl ARG | Some v \<Rightarrow> Inr (Value v))"

fun spec_call ::
  "register_info \<Rightarrow> reg_call \<Rightarrow> (i32 \<rightharpoonup> u64) \<Rightarrow> (uc_error + reply) \<times> (i32 \<rightharpoonup> u64)" where
  "spec_call ri (Read r) m = (spec_read m r, m)"
| "spec_call ri (Write r v) m = spec_write r v m"
| "spec_call ri Pc m = (spec_read m (pc ri), m)"
| "spec_call ri (SetPc v) m = spec_write (pc ri) v m"
| "spec_call ri Sp m = (spec_read m (sp ri), m)"
| "spec_call ri (SetSp v) m = spec_write (sp ri) v m"
| "spec_call ri (IncrSp d) m =
     (case m (sp ri) of
        None \<Rightarrow> (Inl ARG, m)
      | Some cur \<Rightarrow>
          (case spec_incr cur d of
             Inl err \<Rightarrow> (Inl err, m)
           | Inr n \<Rightarrow> (Inr (Value n), m(sp ri \<mapsto> n))))"

text \<open>
  A run of abstract calls, stopping at the first error as \<open>run_calls\<close> does,
  over any abstract call function.
\<close>

fun run_abs ::
  "(reg_call \<Rightarrow> 'm \<Rightarrow> (uc_error + reply) \<times> 'm) \<Rightarrow> reg_call list \<Rightarrow> 'm \<Rightarrow> (uc_error + reply list) \<times> 'm" where
  "run_abs f [] m = (Inr [], m)"
| "run_abs f (c # cs) m =
     (case f c m of
        (Inl err, m') \<Rightarrow> (Inl err, m')
      | (Inr x, m') \<Rightarrow>
          (case run_abs f cs m' of
             (Inl err, m'') \<Rightarrow> (Inl err, m'')
           | (Inr xs, m'') \<Rightarrow> (Inr (x # xs), m'')))"

definition spec_run ::
  "register_info \<Rightarrow> reg_call list \<Rightarrow> (i32 \<rightharpoonup> u64) \<Rightarrow> (uc_error + reply list) \<times> (i32 \<rightharpoonup> u64)" where
  "spec_run ri = run_abs (spec_call ri)"

subsection \<open>The register file of a \<open>w\<close>-bit mode\<close>

definition spec_write_w ::
  "nat \<Rightarrow> i32 \<Rightarrow> u64 \<Rightarrow> (i32 \<rightharpoonup> u64) \<Rightarrow> (uc_error + reply) \<times> (i32 \<rightharpoonup> u64)" where
  "spec_write_w w r v m = (if r \<in> dom m then (Inr Done, m(r \<mapsto> take_bit w v)) else (Inl ARG, m))"

fun spec_call_w ::
  "nat \<Rightarrow> register_info \<Rightarrow> reg_call \<Rightarrow> (i32 \<rightharpoonup> u64) \<Rightarrow> (uc_error + reply) \<times> (i32 \<rightharpoonup> u64)" where
  "spec_call_w w ri (Read r) m = (spec_read m r, m)"
| "spec_call_w w ri (Write r v) m = spec_write_w w r v m"
| "spec_call_w w ri Pc m = (spec_read m (pc ri), m)"
| "spec_call_w w ri (SetPc v) m = spec_write_w w (pc ri) v m"
| "spec_call_w w ri Sp m = (spec_read m (sp ri), m)"
| "spec_call_w w ri (SetSp v) m = spec_write_w w (sp ri) v m"
| "spec_call_w w ri (IncrSp d) m =
     (case m (sp ri) of
        None \<Rightarrow> (Inl ARG, m)
      | Some cur \<Rightarrow>
          (case spec_incr cur d of
             Inl err \<Rightarrow> (Inl err, m)
           | Inr n \<Rightarrow> (Inr (Value n), m(sp ri \<mapsto> take_bit w n))))"

definition spec_run_w ::
  "nat \<Rightarrow> register_info \<Rightarrow> reg_call list \<Rightarrow> (i32 \<rightharpoonup> u64) \<Rightarrow> (uc_error + reply list) \<times> (i32 \<rightharpoonup> u64)" where
  "spec_run_w w ri = run_abs (spec_call_w w ri)"

definition healthy_wide :: "data unicorn \<Rightarrow> bool" where
  "healthy_wide u \<longleftrightarrow> uc_status (uc u) = OK \<and> 64 \<le> mode_bits u"

subsection \<open>Refinement of the abstract register file\<close>

lemma healthy_wide_call:
  "healthy_wide u \<Longrightarrow> healthy_wide (snd (unicorn_call c u)) \<and>
     get_data (snd (unicorn_call c u)) = get_data u"
  using unicorn_call_ctx_frame [of u c] unicorn_call_status [of c u]
  by (simp add: ctx_frame_def healthy_wide_def)

lemma spec_call_w_wide: "64 \<le> w \<Longrightarrow> spec_call_w w ri c m = spec_call ri c m"
  by (cases c) (simp_all add: spec_write_w_def spec_write_def take_bit_word_eq_self
      split: option.split sum.split)

lemma unicorn_call_refines_w:
  assumes ok: "uc_status (uc u) = OK"
  shows "spec_call_w (mode_bits u) (register_info (get_data u)) c (uc_regs (uc u)) =
    apsnd (\<lambda>u'. uc_regs (uc u')) (unicorn_call c u)"
proof (cases c)
  case (IncrSp d)
  then show ?thesis using ok
    by (auto simp: call_def unicorn_incr_sp_eq spec_incr_def Let_def split: option.splits)
qed (use ok in \<open>auto simp: call_def unicorn_registers_def unicorn_read_eq unicorn_write_eq
    unicorn_pc_def unicorn_set_pc_def unicorn_sp_eq unicorn_set_sp_def spec_read_def spec_write_w_def
    Let_def split: option.splits\<close>)

lemma unicorn_call_refines:
  assumes "healthy_wide u"
  shows "spec_call (register_info (get_data u)) c (uc_regs (uc u)) =
    apsnd (\<lambda>u'. uc_regs (uc u')) (unicorn_call c u)"
  using assms unicorn_call_refines_w [of u c] spec_call_w_wide [of "mode_bits u"]
  by (simp add: healthy_wide_def)

text \<open>
  Runs refine when calls do: if a predicate \<open>P\<close> of the context is kept by
  every call, together with the parameters \<open>F u\<close> of the abstract call
  function, and each call refines it, then every run refines the abstract run.
\<close>

lemma run_abs_refines:
  assumes step: "\<And>c u. P u \<Longrightarrow> P (snd (unicorn_call c u)) \<and> F (snd (unicorn_call c u)) = F u \<and>
      G (F u) c (uc_regs (uc u)) = apsnd (\<lambda>u'. uc_regs (uc u')) (unicorn_call c u)"
  shows "P u \<Longrightarrow> run_abs (G (F u)) cs (uc_regs (uc u)) = apsnd (\<lambda>u'. uc_regs (uc u')) (unicorn_run cs u)"
proof (induction cs arbitrary: u)
  case Nil
  then show ?case by simp
next
  case (Cons c cs)
  obtain res u' where call: "unicorn_call c u = (res, u')" by fastforce
  have u': "P u'" "F u' = F u" and abs: "G (F u) c (uc_regs (uc u)) = (res, uc_regs (uc u'))"
    using step [OF Cons.prems, of c] call by simp_all
  show ?case
  proof (cases res)
    case (Inl err)
    then show ?thesis using call abs by simp
  next
    case (Inr x)
    have "run_abs (G (F u)) cs (uc_regs (uc u')) = apsnd (\<lambda>u'. uc_regs (uc u')) (unicorn_run cs u')"
      using Cons.IH [OF u'(1)] u'(2) by simp
    then show ?thesis using call abs Inr by (simp split: prod.splits sum.splits)
  qed
qed

text \<open>
  C8. On a healthy context in a 64-bit mode, running any sequence of register
  calls on the Unicorn impl and then forgetting everything but the register
  file gives exactly what the abstract register file computes: the same replies
  or the same first error, and the same final registers.
\<close>

theorem unicorn_run_refines:
  assumes "healthy_wide u"
  shows "spec_run (register_info (get_data u)) cs (uc_regs (uc u)) =
    apsnd (\<lambda>u'. uc_regs (uc u')) (unicorn_run cs u)"
  unfolding spec_run_def
  using run_abs_refines [where P = healthy_wide and F = "\<lambda>u. register_info (get_data u)"
      and G = spec_call, OF _ assms]
    healthy_wide_call unicorn_call_refines by simp

theorem unicorn_run_refines_witness:
  "healthy_wide (example_ctx 64 0 0) \<and>
   spec_run example_info [SetSp 4096, IncrSp (-16), Sp] [2 \<mapsto> 0, 15 \<mapsto> 0, 29 \<mapsto> 0] =
   apsnd (\<lambda>u'. uc_regs (uc u')) (unicorn_run [SetSp 4096, IncrSp (-16), Sp] (example_ctx 64 0 0)) \<and>
   fst (unicorn_run [SetSp 4096, IncrSp (-16), Sp] (example_ctx 64 0 0)) = Inr [Done, Value 4080, Value 4080]"
proof -
  have h: "healthy_wide (example_ctx 64 0 0)" by (simp add: healthy_wide_def example_defs)
  have "spec_run example_info [SetSp 4096, IncrSp (-16), Sp] [2 \<mapsto> 0, 15 \<mapsto> 0, 29 \<mapsto> 0] =
     (Inr [Done, Value 4080, Value 4080], [2 \<mapsto> 0, 15 \<mapsto> 0, 29 \<mapsto> 4080])"
    by (simp add: spec_run_def example_info_def register_info_new_def spec_write_def spec_read_def
        spec_incr_def)
  moreover have "spec_run (register_info (get_data (example_ctx 64 0 0))) [SetSp 4096, IncrSp (-16), Sp]
      (uc_regs (uc (example_ctx 64 0 0))) = spec_run example_info [SetSp 4096, IncrSp (-16), Sp]
      [2 \<mapsto> 0, 15 \<mapsto> 0, 29 \<mapsto> 0]"
    by (simp add: example_ctx_def get_data_def)
  ultimately show ?thesis using h unicorn_run_refines [OF h, of "[SetSp 4096, IncrSp (-16), Sp]"]
    by (auto simp: apsnd_def map_prod_def split: prod.splits)
qed

lemma unicorn_call_keeps_params:
  "uc_status (uc u) = OK \<Longrightarrow> uc_status (uc (snd (unicorn_call c u))) = OK \<and>
     (mode_bits (snd (unicorn_call c u)), register_info (get_data (snd (unicorn_call c u)))) =
     (mode_bits u, register_info (get_data u))"
  using unicorn_call_ctx_frame [of u c] unicorn_call_status [of c u] by (simp add: ctx_frame_def)

text \<open>
  C23. In every mode, on an engine that is not faulted, running any sequence of
  register calls on the Unicorn impl and keeping only the register file gives
  what the register file of a \<open>w\<close>-bit mode computes, \<open>w\<close> the mode's width:
  the same replies or first error, and the same final registers. In a 32-bit
  mode this is the exact contract of the layer, truncation included.
\<close>

theorem unicorn_run_refines_w:
  assumes "uc_status (uc u) = OK"
  shows "spec_run_w (mode_bits u) (register_info (get_data u)) cs (uc_regs (uc u)) =
    apsnd (\<lambda>u'. uc_regs (uc u')) (unicorn_run cs u)"
  unfolding spec_run_w_def
  using run_abs_refines [where P = "\<lambda>u. uc_status (uc u) = OK"
      and F = "\<lambda>u. (mode_bits u, register_info (get_data u))"
      and G = "\<lambda>(w, ri). spec_call_w w ri", OF _ assms]
    unicorn_call_keeps_params unicorn_call_refines_w by simp

theorem unicorn_run_refines_w_witness:
  "uc_status (uc (example_ctx 32 0 4294967280)) = OK \<and>
   spec_run_w 32 example_info [IncrSp 32, Sp] [2 \<mapsto> 0, 15 \<mapsto> 0, 29 \<mapsto> 4294967280] =
   apsnd (\<lambda>u'. uc_regs (uc u')) (unicorn_run [IncrSp 32, Sp] (example_ctx 32 0 4294967280)) \<and>
   fst (unicorn_run [IncrSp 32, Sp] (example_ctx 32 0 4294967280)) = Inr [Value 4294967312, Value 16]"
proof -
  have ok: "uc_status (uc (example_ctx 32 0 4294967280)) = OK" by (simp add: example_defs)
  have abs: "spec_run_w 32 example_info [IncrSp 32, Sp] [2 \<mapsto> 0, 15 \<mapsto> 0, 29 \<mapsto> 4294967280] =
     (Inr [Value 4294967312, Value 16], [2 \<mapsto> 0, 15 \<mapsto> 0, 29 \<mapsto> 16])"
    by (simp add: spec_run_w_def example_info_def register_info_new_def spec_read_def spec_incr_def)
  have ctx: "spec_run_w (mode_bits (example_ctx 32 0 4294967280))
      (register_info (get_data (example_ctx 32 0 4294967280))) [IncrSp 32, Sp]
      (uc_regs (uc (example_ctx 32 0 4294967280))) =
    spec_run_w 32 example_info [IncrSp 32, Sp] [2 \<mapsto> 0, 15 \<mapsto> 0, 29 \<mapsto> 4294967280]"
    by (simp add: example_ctx_def get_data_def)
  show ?thesis using ok abs ctx unicorn_run_refines_w [OF ok, of "[IncrSp 32, Sp]"]
    by (auto simp: apsnd_def map_prod_def split: prod.splits)
qed

end
