(* ===== verification/Incr_Sp_Laws.thy ===== *)
theory Incr_Sp_Laws
  imports Stack_Register
begin

text \<open>
  Laws of the provided method \<open>StackRegister::incr_sp\<close>
  (\<open>src/mips-runner/src/registers.rs\<close>, lines 15--24). \<open>incr_sp_ref\<close> is a
  reference definition of the same method in exact integer arithmetic, with no
  word-level overflow test: the new stack pointer is the integer
  \<open>sp + delta\<close>, and the call fails with \<open>EXCEPTION\<close> exactly when that integer
  is not a \<open>u64\<close>. The code's \<open>checked_add_signed\<close> implements it (C18). On a
  64-bit Unicorn context, increments compose (C19) and an increment is undone
  by its negation (C12).
\<close>

definition incr_sp_ref :: "'s stack_register \<Rightarrow> i64 \<Rightarrow> ('s, uc_error, u64) mut_method" where
  "incr_sp_ref self_impl delta s =
     (case sr_sp self_impl s of
        Inl err \<Rightarrow> (Inl err, s)
      | Inr cur \<Rightarrow>
          (let n = uint cur + sint delta in
           if n < 0 \<or> 2 ^ 64 \<le> n then (Inl EXCEPTION, s)
           else (case sr_set_sp self_impl (word_of_int n) s of
                   (Inl err, s') \<Rightarrow> (Inl err, s')
                 | (Inr _, s') \<Rightarrow> (Inr (word_of_int n), s'))))"

subsection \<open>The code implements the reference\<close>

lemma checked_add_signed_ref:
  "checked_add_signed cur d =
     (let n = uint cur + sint d in if n < 0 \<or> 2 ^ 64 \<le> n then None else Some (word_of_int n))"
  by (simp add: checked_add_signed_eq_spec add_signed_spec_def Let_def not_le)

text \<open>
  C18. The provided method computes what the reference does, for every
  implementation of the trait, every delta and every state: the word-level
  overflow test of \<open>checked_add_signed\<close> (carry of the unsigned sum against the
  sign of the delta) accepts exactly the sums that lie in \<open>[0, 2^64)\<close>, and then
  its wrapped sum is the exact one.
\<close>

theorem incr_sp_eq_ref: "incr_sp I d s = incr_sp_ref I d s"
  by (simp add: incr_sp_def incr_sp_ref_def checked_add_signed_ref Let_def
      word_of_int_uint_add_sint split: sum.split prod.split)

subsection \<open>Increments on a 64-bit Unicorn context\<close>

text \<open>
  C12. Undoing an increment: on a 64-bit context, after a successful
  \<open>incr_sp(d)\<close>, \<open>incr_sp(-d)\<close> succeeds, returns the original stack pointer
  and restores the context exactly, for every delta except \<open>i64::MIN\<close>, whose
  negation wraps to itself.
\<close>

theorem incr_sp_inverse:
  assumes wide: "64 \<le> mode_bits u" and run: "incr_sp unicorn_stack_register d u = (Inr r, u1)"
    and not_min: "sint d \<noteq> - (2 ^ 63)"
  shows "\<exists>cur. unicorn_sp u = Inr cur \<and> incr_sp unicorn_stack_register (- d) u1 = (Inr cur, u)"
proof -
  obtain cur where ok: "uc_status (uc u) = OK" and reg: "uc_regs (uc u) (sp_id u) = Some cur"
    and lo: "0 \<le> uint cur + sint d" and hi: "uint cur + sint d < 2 ^ 64"
    and r: "r = cur + d"
    and u1: "u1 = u\<lparr>uc := uc u\<lparr>uc_regs := (uc_regs (uc u))(sp_id u \<mapsto> cur + d)\<rparr>\<rparr>"
    using run wide by (auto simp: take_bit_word_eq_self elim: unicorn_incr_sp_InrD)
  have neg: "sint (- d) = - sint d" using not_min sint_uminus [of d] by simp
  have sum: "uint (cur + d) = uint cur + sint d" using lo hi by (rule uint_add_sint_in_range)
  have undo: "incr_sp unicorn_stack_register (- d) u1 = (Inr cur, u)"
    using ok reg wide sum neg uint_bounded [of cur] uint_ge_0 [of cur]
    by (simp add: unicorn_incr_sp_eq u1 get_data_def take_bit_word_eq_self fun_upd_idem)
  have "unicorn_sp u = Inr cur" using ok reg by (simp add: unicorn_sp_eq)
  with undo show ?thesis by blast
qed

theorem incr_sp_inverse_witness:
  "64 \<le> mode_bits (example_ctx 64 0 4096) \<and>
   incr_sp unicorn_stack_register (-16) (example_ctx 64 0 4096) = (Inr 4080, example_ctx 64 0 4080) \<and>
   sint (-16::i64) \<noteq> - (2 ^ 63) \<and>
   incr_sp unicorn_stack_register 16 (example_ctx 64 0 4080) = (Inr 4096, example_ctx 64 0 4096)"
proof -
  have w: "64 \<le> mode_bits (example_ctx 64 0 4096)" by (simp add: example_defs)
  have run: "incr_sp unicorn_stack_register (-16) (example_ctx 64 0 4096) = (Inr 4080, example_ctx 64 0 4080)"
    by (simp add: unicorn_incr_sp_eq example_defs fun_upd_twist)
  have m: "sint (-16::i64) \<noteq> - (2 ^ 63)" by simp
  have "unicorn_sp (example_ctx 64 0 4096) = Inr 4096" by (simp add: unicorn_sp_eq example_defs)
  then show ?thesis using w run m incr_sp_inverse [OF w run m] by simp
qed


text \<open>
  C19. Increments compose: on a 64-bit context, two successful increments by
  \<open>d1\<close> and \<open>d2\<close> return the old stack pointer plus \<open>d1 + d2\<close>, as an exact
  integer sum, and leave the context one write of that value to the SP
  register gives.
\<close>

theorem incr_sp_compose:
  assumes wide: "64 \<le> mode_bits u"
    and first: "incr_sp unicorn_stack_register d1 u = (Inr r1, u1)"
    and second: "incr_sp unicorn_stack_register d2 u1 = (Inr r2, u2)"
  shows "\<exists>cur. unicorn_sp u = Inr cur \<and> r2 = cur + d1 + d2 \<and>
    uint r2 = uint cur + sint d1 + sint d2 \<and> u2 = snd (unicorn_write (sp_id u) r2 u)"
proof -
  obtain cur where ok: "uc_status (uc u) = OK" and reg: "uc_regs (uc u) (sp_id u) = Some cur"
    and lo1: "0 \<le> uint cur + sint d1" and hi1: "uint cur + sint d1 < 2 ^ 64"
    and u1: "u1 = u\<lparr>uc := uc u\<lparr>uc_regs := (uc_regs (uc u))(sp_id u \<mapsto> cur + d1)\<rparr>\<rparr>"
    using first wide by (auto simp: take_bit_word_eq_self elim: unicorn_incr_sp_InrD)
  have same: "sp_id u1 = sp_id u" "mode_bits u1 = mode_bits u" "uc_status (uc u1) = OK"
    using ok by (simp_all add: u1 get_data_def)
  obtain cur' where reg': "uc_regs (uc u1) (sp_id u1) = Some cur'"
    and lo2: "0 \<le> uint cur' + sint d2" and hi2: "uint cur' + sint d2 < 2 ^ 64"
    and r2: "r2 = cur' + d2"
    and u2: "u2 = u1\<lparr>uc := uc u1\<lparr>uc_regs := (uc_regs (uc u1))(sp_id u1 \<mapsto> cur' + d2)\<rparr>\<rparr>"
    using second wide same by (auto simp: take_bit_word_eq_self elim: unicorn_incr_sp_InrD)
  have cur': "cur' = cur + d1" using reg' by (simp add: u1 get_data_def)
  have "uint r2 = uint cur + sint d1 + sint d2"
    using uint_add_sint_in_range [OF lo2 hi2] uint_add_sint_in_range [OF lo1 hi1] by (simp add: r2 cur')
  moreover have "u2 = snd (unicorn_write (sp_id u) r2 u)"
    using ok reg wide by (simp add: u2 u1 r2 cur' unicorn_write_eq domIff take_bit_word_eq_self get_data_def)
  moreover have "unicorn_sp u = Inr cur" using ok reg by (simp add: unicorn_sp_eq)
  ultimately show ?thesis using r2 cur' by (auto simp: add.assoc)
qed

theorem incr_sp_compose_witness:
  "64 \<le> mode_bits (example_ctx 64 0 4096) \<and>
   incr_sp unicorn_stack_register (-16) (example_ctx 64 0 4096) = (Inr 4080, example_ctx 64 0 4080) \<and>
   incr_sp unicorn_stack_register (-32) (example_ctx 64 0 4080) = (Inr 4048, example_ctx 64 0 4048) \<and>
   unicorn_sp (example_ctx 64 0 4096) = Inr 4096 \<and> uint (4048::u64) = 4096 - 16 - 32"
proof -
  have w: "64 \<le> mode_bits (example_ctx 64 0 4096)" by (simp add: example_defs)
  have r1: "incr_sp unicorn_stack_register (-16) (example_ctx 64 0 4096) = (Inr 4080, example_ctx 64 0 4080)"
    by (simp add: unicorn_incr_sp_eq example_defs fun_upd_twist)
  have r2: "incr_sp unicorn_stack_register (-32) (example_ctx 64 0 4080) = (Inr 4048, example_ctx 64 0 4048)"
    by (simp add: unicorn_incr_sp_eq example_defs fun_upd_twist)
  show ?thesis using w r1 r2 incr_sp_compose [OF w r1 r2] by auto
qed

end
