(* ===== verification/Incr_Sp_Loop.thy ===== *)
theory Incr_Sp_Loop
  imports Stack_Register
begin

text \<open>
  A client of \<open>StackRegister::incr_sp\<close> (\<open>src/mips-runner/src/registers.rs\<close>,
  lines 15--24) that relies on its overflow check: \<open>incr_sp_loop\<close> repeats
  \<open>incr_sp(d)\<close> until a call fails and returns the error, the number of
  successful increments and the final state, as a driver's push or unwind loop
  that stops at stack exhaustion does. It is a \<open>partial_function\<close> in the
  option monad, so a loop that never stops is the value \<open>None\<close>. Two generic
  lemmas, over any implementation of the trait, give termination from a
  decreasing integer measure (\<open>incr_sp_loop_measure\<close>, by well-founded
  induction) and divergence from an invariant under which every call succeeds
  (\<open>incr_sp_loop_None\<close>, by fixpoint induction). On the Unicorn impl the loop
  terminates with a bound in 64-bit modes (C21) and never returns for a
  positive delta in narrower modes (C22).
\<close>

partial_function (option) incr_sp_loop ::
  "'s stack_register \<Rightarrow> i64 \<Rightarrow> 's \<Rightarrow> (uc_error \<times> nat \<times> 's) option" where
  "incr_sp_loop self_impl delta s =
     (case incr_sp self_impl delta s of
        (Inl err, s') \<Rightarrow> Some (err, 0, s')
      | (Inr _, s') \<Rightarrow>
          Option.bind (incr_sp_loop self_impl delta s') (\<lambda>(err, n, t). Some (err, Suc n, t)))"

text \<open>
  How far the stack pointer can still move in the direction of \<open>d\<close> before
  \<open>incr_sp\<close> reports overflow: the measure that bounds the loop.
\<close>

definition sp_room :: "i64 \<Rightarrow> data unicorn \<Rightarrow> int" where
  "sp_room d u =
     (case unicorn_sp u of
        Inl _ \<Rightarrow> 0
      | Inr cur \<Rightarrow> if 0 < sint d then 2 ^ 64 - 1 - uint cur else uint cur)"

text \<open>The engine is healthy and the SP id names one of its registers.\<close>

abbreviation sp_live :: "data unicorn \<Rightarrow> bool" where
  "sp_live u \<equiv> uc_status (uc u) = OK \<and> sp_id u \<in> dom (uc_regs (uc u))"

subsection \<open>Termination and divergence for any implementation\<close>

lemma incr_sp_loop_measure:
  fixes f :: "'s \<Rightarrow> int"
  assumes step: "\<And>s r s'. I s \<Longrightarrow> incr_sp S d s = (Inr r, s') \<Longrightarrow> I s' \<and> f s' + k \<le> f s"
    and pos: "0 < k" and nonneg: "\<And>s. 0 \<le> f s" and init: "I s"
  shows "\<exists>err n s'. incr_sp_loop S d s = Some (err, n, s') \<and> int n * k \<le> f s \<and>
    (\<exists>t. I t \<and> fst (incr_sp S d t) = Inl err)"
  using init
proof (induction "nat (f s)" arbitrary: s rule: less_induct)
  case less
  show ?case
  proof (cases "incr_sp S d s")
    case (Pair res s1)
    show ?thesis
    proof (cases res)
      case (Inl err)
      then show ?thesis using Pair nonneg [of s] less.prems by (force simp: incr_sp_loop.simps)
    next
      case (Inr r)
      with Pair have run: "incr_sp S d s = (Inr r, s1)" by simp
      have i1: "I s1" and dec: "f s1 + k \<le> f s" using step [OF less.prems run] by simp_all
      have "nat (f s1) < nat (f s)" using dec pos nonneg [of s1] by simp
      then obtain err n s' where rec: "incr_sp_loop S d s1 = Some (err, n, s')"
        and bnd: "int n * k \<le> f s1" and last: "\<exists>t. I t \<and> fst (incr_sp S d t) = Inl err"
        using less.hyps [OF _ i1] by blast
      have "incr_sp_loop S d s = Some (err, Suc n, s')"
        using run rec by (simp add: incr_sp_loop.simps)
      moreover have "int (Suc n) * k \<le> f s" using bnd dec by (simp add: algebra_simps)
      ultimately show ?thesis using last by blast
    qed
  qed
qed

lemma incr_sp_loop_None:
  assumes step: "\<And>s. I s \<Longrightarrow> \<exists>r s'. incr_sp S d s = (Inr r, s') \<and> I s'"
  shows "I s \<Longrightarrow> incr_sp_loop S d s \<noteq> Some x"
proof (induction arbitrary: s x rule: incr_sp_loop.fixp_induct)
  case 1
  have eq: "(\<lambda>F. \<forall>x. I x \<longrightarrow> (\<forall>xa. curry (curry F) S d x \<noteq> Some xa)) =
      (\<lambda>F. \<forall>x y. F x = Some y \<longrightarrow> \<not> (fst x = (S, d) \<and> I (snd x)))"
    by (fastforce simp: fun_eq_iff)
  show ?case unfolding eq by (rule option_admissible)
next
  case 2
  then show ?case by simp
next
  case (3 F)
  obtain r s' where run: "incr_sp S d s = (Inr r, s')" and i: "I s'" using step [OF 3(2)] by blast
  have "F S d s' = None" using 3(1) [OF i] by (cases "F S d s'") auto
  then show ?case using run by simp
qed

subsection \<open>The loop on a Unicorn context\<close>

lemma uint_lt_exp_mode:
  "take_bit n v = v \<Longrightarrow> uint (v::u64) < 2 ^ n"
  by (metis take_bit_int_less_exp unsigned_take_bit_eq)

lemma unicorn_incr_sp_step_keeps:
  assumes "incr_sp unicorn_stack_register d u = (Inr r, u')"
  shows "mode_bits u' = mode_bits u \<and> sp_live u'"
  using assms by (auto elim!: unicorn_incr_sp_InrD simp: get_data_def)

lemma unicorn_incr_sp_room:
  assumes wide: "64 \<le> mode_bits u" and run: "incr_sp unicorn_stack_register d u = (Inr r, u')"
  shows "sp_room d u' + \<bar>sint d\<bar> \<le> sp_room d u"
proof -
  obtain cur where ok: "uc_status (uc u) = OK" and reg: "uc_regs (uc u) (sp_id u) = Some cur"
    and lo: "0 \<le> uint cur + sint d" and hi: "uint cur + sint d < 2 ^ 64"
    and u': "u' = u\<lparr>uc := uc u\<lparr>uc_regs := (uc_regs (uc u))(sp_id u \<mapsto> cur + d)\<rparr>\<rparr>"
    using run wide by (auto simp: take_bit_word_eq_self elim: unicorn_incr_sp_InrD)
  have "unicorn_sp u' = Inr (cur + d)" using ok by (simp add: u' unicorn_sp_eq get_data_def)
  moreover have "unicorn_sp u = Inr cur" using ok reg by (simp add: unicorn_sp_eq)
  ultimately show ?thesis
    using uint_add_sint_in_range [OF lo hi] by (auto simp: sp_room_def)
qed

lemma sp_room_bounds: "0 \<le> sp_room d u \<and> sp_room d u \<le> 2 ^ 64 - 1"
  using uint_bounded [of "projr (unicorn_sp u)"] uint_ge_0 [of "projr (unicorn_sp u)"]
  by (auto simp: sp_room_def split: sum.split)

lemma unicorn_incr_sp_live_fails:
  "sp_live u \<Longrightarrow> fst (incr_sp unicorn_stack_register d u) = Inl err \<Longrightarrow> err = EXCEPTION"
  by (auto simp: unicorn_incr_sp_eq domIff split: if_splits option.splits)

text \<open>
  C21. The client loop terminates on a 64-bit context: for every nonzero
  delta, repeating \<open>incr_sp(d)\<close> until it fails returns after \<open>n\<close> successful
  increments with \<open>n * |d| < 2^64\<close>, and, when the engine is healthy and the SP
  id is a register, it stops with \<open>EXCEPTION\<close>: the overflow check is what ends
  a runaway push or pop loop.
\<close>

theorem unicorn_incr_sp_loop_terminates:
  assumes wide: "64 \<le> mode_bits u" and nz: "sint d \<noteq> 0"
  shows "\<exists>err n u'. incr_sp_loop unicorn_stack_register d u = Some (err, n, u') \<and>
    int n * \<bar>sint d\<bar> < 2 ^ 64 \<and> (sp_live u \<longrightarrow> err = EXCEPTION)"
proof -
  define I where "I t \<longleftrightarrow> 64 \<le> mode_bits t \<and> (sp_live u \<longrightarrow> sp_live t)" for t
  have step: "I t' \<and> sp_room d t' + \<bar>sint d\<bar> \<le> sp_room d t"
    if "I t" and "incr_sp unicorn_stack_register d t = (Inr r, t')" for t r t'
  proof
    have "mode_bits t' = mode_bits t" and "sp_live t'"
      using unicorn_incr_sp_step_keeps [OF that(2)] by simp_all
    then show "I t'" using that(1) by (simp add: I_def)
    show "sp_room d t' + \<bar>sint d\<bar> \<le> sp_room d t"
      using that(1) by (intro unicorn_incr_sp_room [OF _ that(2)]) (simp add: I_def)
  qed
  have init: "I u" using wide by (simp add: I_def)
  have pos: "0 < \<bar>sint d\<bar>" using nz by simp
  have nonneg: "0 \<le> sp_room d s" for s using sp_room_bounds [of d s] by simp
  obtain err n u' where loop: "incr_sp_loop unicorn_stack_register d u = Some (err, n, u')"
    and bnd: "int n * \<bar>sint d\<bar> \<le> sp_room d u"
    and last: "\<exists>t. I t \<and> fst (incr_sp unicorn_stack_register d t) = Inl err"
    using incr_sp_loop_measure [of I unicorn_stack_register d "sp_room d" "\<bar>sint d\<bar>" u]
      step pos nonneg init by blast
  have "int n * \<bar>sint d\<bar> < 2 ^ 64" using bnd sp_room_bounds [of d u] by simp
  moreover have "sp_live u \<longrightarrow> err = EXCEPTION"
    using last unicorn_incr_sp_live_fails unfolding I_def by blast
  ultimately show ?thesis using loop by blast
qed

theorem unicorn_incr_sp_loop_terminates_witness:
  "64 \<le> mode_bits (example_ctx 64 0 32) \<and> sint (-16::i64) \<noteq> 0 \<and>
   incr_sp_loop unicorn_stack_register (-16) (example_ctx 64 0 32) = Some (EXCEPTION, 2, example_ctx 64 0 0) \<and>
   int 2 * \<bar>sint (-16::i64)\<bar> < 2 ^ 64"
proof -
  have w: "64 \<le> mode_bits (example_ctx 64 0 32)" by (simp add: example_defs)
  have nz: "sint (-16::i64) \<noteq> 0" by simp
  have run: "incr_sp_loop unicorn_stack_register (-16) (example_ctx 64 0 32) = Some (EXCEPTION, 2, example_ctx 64 0 0)"
    by (simp add: incr_sp_loop.simps unicorn_incr_sp_eq example_defs fun_upd_twist)
  obtain err n u' where loop: "incr_sp_loop unicorn_stack_register (-16) (example_ctx 64 0 32) = Some (err, n, u')"
    and bnd: "int n * \<bar>sint (-16::i64)\<bar> < 2 ^ 64"
    using unicorn_incr_sp_loop_terminates [OF w nz] by blast
  have "n = 2" using loop run by simp
  then show ?thesis using w nz run bnd by simp
qed

lemma narrow_incr_sp_succeeds:
  assumes narrow: "mode_bits u < 64" and ok: "uc_status (uc u) = OK"
    and reg: "uc_regs (uc u) (sp_id u) = Some v" and fits: "take_bit (mode_bits u) v = v"
    and pos: "0 < sint d"
  shows "incr_sp unicorn_stack_register d u =
    (Inr (v + d), u\<lparr>uc := uc u\<lparr>uc_regs := (uc_regs (uc u))(sp_id u \<mapsto> take_bit (mode_bits u) (v + d))\<rparr>\<rparr>)"
proof -
  have "uint v < 2 ^ mode_bits u" by (rule uint_lt_exp_mode [OF fits])
  also have "(2::int) ^ mode_bits u \<le> 2 ^ 63" using narrow by (intro power_increasing) simp_all
  finally have "uint v + sint d < 2 ^ 64" using sint_lt [of d] by simp
  moreover have "0 \<le> uint v + sint d" using pos uint_ge_0 [of v] by simp
  ultimately show ?thesis using ok reg by (simp add: unicorn_incr_sp_eq)
qed

text \<open>
  C22. In a mode narrower than 64 bits the loop never returns for any positive
  delta: the stack pointer read is below \<open>2^w \<le> 2^63\<close>, so \<open>sp + d\<close> never
  leaves the \<open>u64\<close> range and every \<open>incr_sp(d)\<close> succeeds, while the engine
  wraps the register. Stack growth past the top of a 32-bit address space is
  never reported.
\<close>

theorem unicorn_incr_sp_loop_diverges:
  assumes "mode_bits u < 64" and "uc_status (uc u) = OK"
    and "uc_regs (uc u) (sp_id u) = Some v" and "take_bit (mode_bits u) v = v" and "0 < sint d"
  shows "incr_sp_loop unicorn_stack_register d u = None"
proof -
  define I where "I t \<longleftrightarrow> mode_bits t < 64 \<and> uc_status (uc t) = OK \<and>
    (\<exists>w. uc_regs (uc t) (sp_id t) = Some w \<and> take_bit (mode_bits t) w = w)" for t
  have step: "\<exists>r t'. incr_sp unicorn_stack_register d t = (Inr r, t') \<and> I t'" if it: "I t" for t
  proof -
    obtain w where n: "mode_bits t < 64" and ok: "uc_status (uc t) = OK"
      and reg: "uc_regs (uc t) (sp_id t) = Some w" and fits: "take_bit (mode_bits t) w = w"
      using it unfolding I_def by blast
    show ?thesis
      using narrow_incr_sp_succeeds [OF n ok reg fits \<open>0 < sint d\<close>] n ok
      by (simp add: I_def get_data_def)
  qed
  have init: "I u" using assms by (auto simp: I_def)
  have "incr_sp_loop unicorn_stack_register d u \<noteq> Some x" for x
    using incr_sp_loop_None [of I unicorn_stack_register d u x] step init by blast
  then show ?thesis by (cases "incr_sp_loop unicorn_stack_register d u") auto
qed

theorem unicorn_incr_sp_loop_diverges_witness:
  "mode_bits (example_ctx 32 0 4096) < 64 \<and> uc_status (uc (example_ctx 32 0 4096)) = OK \<and>
   uc_regs (uc (example_ctx 32 0 4096)) (sp_id (example_ctx 32 0 4096)) = Some 4096 \<and>
   take_bit (mode_bits (example_ctx 32 0 4096)) (4096::u64) = 4096 \<and> 0 < sint (16::i64) \<and>
   incr_sp_loop unicorn_stack_register 16 (example_ctx 32 0 4096) = None"
proof -
  have n: "mode_bits (example_ctx 32 0 4096) < 64" by (simp add: example_defs)
  have ok: "uc_status (uc (example_ctx 32 0 4096)) = OK" by (simp add: example_defs)
  have reg: "uc_regs (uc (example_ctx 32 0 4096)) (sp_id (example_ctx 32 0 4096)) = Some 4096"
    by (simp add: example_defs)
  have fits: "take_bit (mode_bits (example_ctx 32 0 4096)) (4096::u64) = 4096" by (simp add: example_defs)
  have pos: "0 < sint (16::i64)" by simp
  show ?thesis using n ok reg fits pos unicorn_incr_sp_loop_diverges [OF n ok reg fits pos] by simp
qed

end
