(* ===== verification/Interleaving.thy ===== *)
theory Interleaving
  imports Emulation
begin

text \<open>
  The order of register calls. Every call of the two capabilities is local to
  one register, the one \<open>call_reg\<close> names: \<open>call_effect\<close> is what the call
  does to that register's value (its reply and the value written back, if
  any), and \<open>apply_effect\<close> runs it on a context with the engine's status
  check, the \<open>ARG\<close> check and the mode's truncation. \<open>unicorn_call_local\<close>
  shows that every call of the Unicorn impl is exactly this, which gives the
  ordering result: calls that address distinct registers commute.
\<close>

fun call_effect :: "reg_call \<Rightarrow> u64 \<Rightarrow> (uc_error + reply) \<times> u64 option" where
  "call_effect (Read r) x = (Inr (Value x), None)"
| "call_effect (Write r v) x = (Inr Done, Some v)"
| "call_effect Pc x = (Inr (Value x), None)"
| "call_effect (SetPc v) x = (Inr Done, Some v)"
| "call_effect Sp x = (Inr (Value x), None)"
| "call_effect (SetSp v) x = (Inr Done, Some v)"
| "call_effect (IncrSp d) x =
     (if 0 \<le> uint x + sint d \<and> uint x + sint d < 2 ^ 64 then (Inr (Value (x + d)), Some (x + d))
      else (Inl EXCEPTION, None))"

definition apply_effect :: "i32 \<Rightarrow> reg_call \<Rightarrow> (data unicorn, uc_error, reply) mut_method" where
  "apply_effect r c u =
     (if uc_status (uc u) \<noteq> OK then (Inl (uc_status (uc u)), u)
      else case uc_regs (uc u) r of
        None \<Rightarrow> (Inl ARG, u)
      | Some x \<Rightarrow>
          (case call_effect c x of
             (res, None) \<Rightarrow> (res, u)
           | (res, Some y) \<Rightarrow>
               (res, u\<lparr>uc := uc u\<lparr>uc_regs := (uc_regs (uc u))(r \<mapsto> take_bit (mode_bits u) y)\<rparr>\<rparr>)))"

subsection \<open>Calls are local to one register\<close>

lemma unicorn_call_local:
  "unicorn_call c u = apply_effect (call_reg (register_info (get_data u)) c) c u"
  by (cases c) (auto simp: apply_effect_def call_def unicorn_registers_def unicorn_read_eq unicorn_write_eq
      unicorn_pc_def unicorn_set_pc_def unicorn_sp_eq unicorn_set_sp_def unicorn_incr_sp_eq Let_def
      split: option.splits)

lemma apply_effect_data: "get_data (snd (apply_effect r c u)) = get_data u"
  by (auto simp: apply_effect_def get_data_def split: option.splits prod.splits)

lemma apply_effect_commute:
  assumes "r1 \<noteq> r2"
  shows "snd (apply_effect r2 c2 (snd (apply_effect r1 c1 u))) = snd (apply_effect r1 c1 (snd (apply_effect r2 c2 u))) \<and>
    fst (apply_effect r2 c2 (snd (apply_effect r1 c1 u))) = fst (apply_effect r2 c2 u)"
  using assms
  by (auto simp: apply_effect_def fun_upd_twist split: option.splits prod.splits)

subsection \<open>Ordering of calls\<close>

text \<open>
  C24. Calls on distinct registers commute: when two calls of the capabilities
  address different registers (after resolving PC and SP through
  \<open>RegisterInfo\<close>), running them in either order leaves the same context, and
  the reply of the second is the reply it gives when run alone. This holds on
  every context, healthy or faulted, and for failing calls too.
\<close>

theorem calls_commute:
  assumes "call_reg (register_info (get_data u)) c1 \<noteq> call_reg (register_info (get_data u)) c2"
  shows "snd (unicorn_call c2 (snd (unicorn_call c1 u))) = snd (unicorn_call c1 (snd (unicorn_call c2 u))) \<and>
    fst (unicorn_call c2 (snd (unicorn_call c1 u))) = fst (unicorn_call c2 u)"
  using apply_effect_commute [OF assms, of c2 c1 u] assms
  by (simp add: unicorn_call_local apply_effect_data)

theorem calls_commute_witness:
  "call_reg (register_info (get_data (example_ctx 64 0 4096))) (IncrSp (-16)) \<noteq>
     call_reg (register_info (get_data (example_ctx 64 0 4096))) (SetPc 64) \<and>
   snd (unicorn_call (IncrSp (-16)) (snd (unicorn_call (SetPc 64) (example_ctx 64 0 4096)))) =
     example_ctx 64 64 4080 \<and>
   fst (unicorn_call (SetPc 64) (snd (unicorn_call (IncrSp (-16)) (example_ctx 64 0 4096)))) = Inr Done"
proof -
  have ne: "call_reg (register_info (get_data (example_ctx 64 0 4096))) (IncrSp (-16)) \<noteq>
     call_reg (register_info (get_data (example_ctx 64 0 4096))) (SetPc 64)"
    by (simp add: example_defs)
  have one: "snd (unicorn_call (SetPc 64) (snd (unicorn_call (IncrSp (-16)) (example_ctx 64 0 4096)))) =
     example_ctx 64 64 4080"
    by (simp add: call_def unicorn_incr_sp_eq unicorn_registers_def unicorn_set_pc_def unicorn_write_eq
        example_defs fun_upd_twist)
  have alone: "fst (unicorn_call (SetPc 64) (example_ctx 64 0 4096)) = Inr Done"
    by (simp add: call_def unicorn_registers_def unicorn_set_pc_def unicorn_write_eq example_defs)
  show ?thesis using ne one alone calls_commute [OF ne] by simp
qed

end
