(* ===== verification/Spec2Isabelle.thy ===== *)
theory Spec2Isabelle
  imports Abstract_Register_File Incr_Sp_Laws Incr_Sp_Loop Interleaving
begin

text \<open>
  \<^bold>\<open>Register access for the MIPS runner.\<close>
  This development models \<open>src/mips-runner/src/registers.rs\<close>, the layer through
  which the emulation driver reads and writes the registers of a Unicorn
  emulation context, and proves what the layer promises.

  \<^bold>\<open>The program.\<close> Two traits are implemented on the engine's context type
  \<open>Unicorn<'a, Data>\<close>: \<open>Registers\<close> (\<open>read\<close>, \<open>write\<close> by engine register id,
  \<open>pc\<close>, \<open>set_pc\<close>) and \<open>StackRegister\<close> (\<open>sp\<close>, \<open>set_sp\<close>, and the provided
  method \<open>incr_sp\<close>, which adds a signed delta to the stack pointer with
  \<open>u64::checked_add_signed\<close> and fails with \<open>uc_error::EXCEPTION\<close> on overflow).
  \<open>pc\<close> and \<open>sp\<close> find their register id in the \<open>RegisterInfo\<close> attached to the
  context's data. Every call is a thin pass-through to the engine's
  \<open>reg_read\<close>/\<open>reg_write\<close>, whose errors propagate unchanged.

  \<^bold>\<open>The theories.\<close>
  \<^item> \<open>Prelude\<close>: the Rust integer types as words (\<open>u64\<close>, \<open>i64\<close>, \<open>i32\<close>), the
    shape of a \<open>&mut self\<close> method (result and state after the call), the
    collection \<open>uc_defs\<close>, and lemmas on signed/unsigned readings of words.
  \<^item> \<open>Checked_Arith\<close>: \<open>overflowing_add\<close>, \<open>overflowing_add_signed\<close> and
    \<open>checked_add_signed\<close> as the Rust standard library writes them (carry XOR
    sign of the delta), proved equal to the contract \<open>add_signed_spec\<close>.
  \<^item> \<open>Unicorn_Engine\<close>: the external engine, modelled from the spec's contract
    (section 6): \<open>uc_error\<close>, a register file \<open>i32 \<rightharpoonup> u64\<close> whose domain is the
    architecture's registers, the register width of the emulated mode (writes
    keep the low-order bits), a status that every access reports when it is not
    \<open>OK\<close>, and the context record \<open>'d unicorn\<close> with \<open>get_data\<close>.
  \<^item> \<open>Register_Info\<close>: \<open>RegisterInfo\<close> and \<open>RegisterInfo::new\<close> (with the
    \<open>Into<i32>\<close> conversions passed explicitly), and the context data \<open>data\<close>.
  \<^item> \<open>Registers\<close>: \<open>impl Registers for Unicorn\<close> (\<open>unicorn_read\<close>,
    \<open>unicorn_write\<close>, \<open>unicorn_pc\<close>, \<open>unicorn_set_pc\<close>) and its lemmas.
  \<^item> \<open>Stack_Register\<close>: the trait as a dictionary \<open>'s stack_register\<close> of its
    required methods, the provided \<open>incr_sp\<close> over any dictionary, the contracts
    \<open>set_sp_read_back\<close> and \<open>set_sp_atomic\<close> an implementation may meet, and
    the Unicorn impl \<open>unicorn_stack_register\<close>.
  \<^item> \<open>Incr_Sp_Laws\<close>: \<open>incr_sp_ref\<close>, a reference definition of \<open>incr_sp\<close> in
    exact integer arithmetic (fail with \<open>EXCEPTION\<close> exactly when
    \<open>sp + delta\<close> is not in \<open>[0, 2^64)\<close>), and the algebra of increments.
  \<^item> \<open>Incr_Sp_Loop\<close>: \<open>incr_sp_loop\<close>, a client loop that repeats
    \<open>incr_sp(d)\<close> until it fails (a driver's push or unwind loop relying on the
    overflow check), as a \<open>partial_function (option)\<close>: \<open>None\<close> is a loop that
    never returns. Its measure \<open>sp_room\<close> is how far the stack pointer can
    still move in the delta's direction.
  \<^item> \<open>Example_Contexts\<close>: concrete contexts (spec example: PC at id 15, SP at
    id 29) on which the witnesses evaluate the operations by \<open>simp\<close>.
  \<^item> \<open>Emulation\<close>: the driver's use of the layer. \<open>reg_call\<close> names the seven
    methods; \<open>call\<close> dispatches one through the two trait dictionaries (so it runs
    on any implementation), \<open>run_calls\<close> runs a sequence and stops at the first
    error (spec, section 7). \<open>emu_step\<close> is an instruction step of the engine
    (register values change within the mode's width with register set, mode,
    status and data kept, or the engine enters a fault state), \<open>driver_step\<close>
    is a call or an instruction step, and \<open>reachable u0\<close> closes a start
    context under both.
  \<^item> \<open>Abstract_Register_File\<close>: the abstract register file of the spec.
    \<open>spec_call\<close> is a map from ids to 64-bit values with exact stack-pointer
    arithmetic; \<open>spec_call_w w\<close> is the register file of a \<open>w\<close>-bit mode (a
    register keeps the low \<open>w\<close> bits of a write, \<open>incr_sp\<close> returns the exact
    sum); \<open>run_abs\<close> runs either over a call list, and \<open>spec_run\<close>,
    \<open>spec_run_w\<close> are its instances.
  \<^item> \<open>Interleaving\<close>: \<open>call_effect\<close> and \<open>apply_effect\<close>, the effect of a call on
    the one register it addresses, with \<open>unicorn_call_local\<close> showing every call
    of the Unicorn impl is such a local effect.

  \<^bold>\<open>What is shown\<close> (claim ids C1--C24, each stated in a text block before its
  theorem, each theorem with a hypothesis followed by a witness on a concrete
  context).
  \<^item> \<open>incr_sp\<close> (\<open>Stack_Register\<close>): its behaviour on a Unicorn context on every
    branch (C1); overflow detected before any write, for every implementation of
    the trait (C2); read-back of the exact sum for every implementation whose
    \<open>set_sp\<close> reads back (C3); all-or-nothing failure for every implementation
    whose failing \<open>set_sp\<close> changes nothing (C4); the spec's stack-pointer
    property on 64-bit contexts (C5); what \<open>sp()\<close> reads afterwards in general,
    the sum cut to the mode's width (C6); \<open>incr_sp(-d)\<close> undoes \<open>incr_sp(d)\<close>
    exactly except for \<open>d = i64::MIN\<close> (C12, \<open>Incr_Sp_Laws\<close>); the Unicorn impl meets the
    read-back contract of the trait exactly in 64-bit modes (C17). Underneath,
    \<open>checked_add_signed_eq_spec\<close> (\<open>Checked_Arith\<close>) shows the library's
    carry-XOR-sign routine equal to the mathematical overflow rule.
  \<^item> \<open>Incr_Sp_Laws\<close>: for every implementation of the trait, \<open>incr_sp\<close> equals
    the exact-integer reference \<open>incr_sp_ref\<close> (C18, equivalence); on a 64-bit
    context two successful increments compose into one by the sum of the
    deltas, both in the value returned and in the context left (C19).
  \<^item> \<open>Incr_Sp_Loop\<close>: on a 64-bit context the loop terminates for every nonzero
    delta after \<open>n\<close> increments with \<open>n * |d| < 2^64\<close>, ending in \<open>EXCEPTION\<close>
    on a healthy engine (C21, termination, by well-founded induction on
    \<open>sp_room\<close>); in every narrower mode it never returns for a positive delta
    (C22, by fixpoint induction on the loop with an invariant under which every
    increment succeeds).
  \<^item> \<open>Registers\<close>: read-after-write (C7), independence of registers (C9), errors of \<open>write\<close> reported unchanged with
    the context unchanged (C10), \<open>set_pc\<close> then \<open>pc\<close> (C11).
  \<^item> \<open>Emulation\<close>: on a faulted engine every call fails with the engine's error
    and changes nothing (C15); in every reachable context \<open>incr_sp(0)\<close> is a
    no-op, in any mode, which needs the invariant that every register value
    fits the mode's width (\<open>reachable_ctx_frame\<close>, by rule induction over
    \<open>reachable\<close> with the frame predicate \<open>ctx_frame\<close>) (C16); and runs make
    progress: on an unfaulted engine, a run whose calls address registers of
    the engine completes with one reply per call, or stops at an
    \<open>incr_sp(d)\<close> whose sum with the stack pointer read there leaves the
    \<open>u64\<close> range, all calls before it having succeeded (C20, by induction on
    the call list).
  \<^item> \<open>Abstract_Register_File\<close>: on a healthy 64-bit context every run of
    calls refines the 64-bit register file (C8); on any unfaulted engine, in
    every mode, every run refines the register file of the mode's width (C23).
    Both follow from one lemma, \<open>run_abs_refines\<close> (runs refine when each
    call does and a predicate and the abstract parameters are kept), by
    induction on the call list; the per-call refinement for 64-bit modes is
    the \<open>w\<close>-bit one with \<open>spec_call_w_wide\<close>.
  \<^item> \<open>Interleaving\<close>: calls on distinct registers commute, in the context they
    leave and in their replies, on every context and for failing calls too
    (C24).
  \<^item> This theory: the named accessors are redirections through
    \<open>RegisterInfo::new\<close> (C13), and PC and SP do not interfere when their ids
    differ (C14).

  \<^bold>\<open>Finding.\<close> \<open>incr_sp\<close> checks overflow on 64 bits and returns the 64-bit
  sum, while the engine keeps only the low bits of a register in a 32-bit mode:
  on MIPS32, from SP \<open>0xFFFFFFF0\<close>, \<open>incr_sp(32)\<close> returns \<open>0x1_0000_0010\<close> and
  \<open>sp()\<close> then reads \<open>0x10\<close> (C6 and its witness). Likewise \<open>set_sp(v)\<close>
  then \<open>sp()\<close> returns \<open>v\<close> for every \<open>v\<close> exactly in 64-bit modes (C17). The
  spec's read-back properties for \<open>set_sp\<close> and \<open>incr_sp\<close>, and its rule that
  overflow fails without mutation, hold only in 64-bit modes (C5, C8). The
  same cause means that in a 32-bit mode no positive increment ever overflows:
  the stack pointer read is below \<open>2^32\<close>, the check is against \<open>2^64\<close>, and
  the engine wraps the register, so a push loop that relies on \<open>EXCEPTION\<close>
  to detect exhaustion never stops (C22).

  \<^bold>\<open>Not modelled.\<close> Instruction decoding, memory mapping, binary loading and
  the CLI of the runner are outside the register layer (spec, section 1); the
  engine is modelled only through its register contract, and an instruction
  step only by what it may do to registers. Termination: there are no loops
  in \<open>registers.rs\<close>, so no fuel or termination measure is needed; every
  operation is a non-recursive \<open>definition\<close>, and \<open>run_calls\<close>,
  \<open>run_abs\<close> and \<open>call_reg\<close> are \<open>fun\<close>s recursing structurally on the call
  list (total by construction, which C20 uses to show every run ends).
  Fuel is not used: the one loop of the development, the client
  \<open>incr_sp_loop\<close>, is a \<open>partial_function (option)\<close>, and its termination
  (C21) and non-termination (C22) are proved as such, not up to a bound.

  \<^bold>\<open>Extent.\<close> Every item of \<open>registers.rs\<close> is modelled: the two traits,
  the provided \<open>incr_sp\<close>, both impls for \<open>Unicorn<'a, Data>\<close>, \<open>RegisterInfo\<close>
  and its constructor. The source lines no definition translates are the
  \<open>use\<close> declarations, blank lines and closing braces (lines 1--4, 25, 37,
  55). The engine is a single register width per mode, as the crate's
  \<open>reg_read\<close>/\<open>reg_write\<close> contract presents it; per-register widths and the
  MIPS register numbering of the engine would be facts about the external
  crate and the runner's setup code, neither of which is in the sources, so
  they are not modelled. The spec's mock engine (section 9) is not code of the
  repository either, and is not modelled.
\<close>

subsection \<open>Named accessors and the configured register ids\<close>

text \<open>
  C13. The named accessors are redirections through \<open>RegisterInfo::new\<close> (spec,
  section 8): on a context whose data carries \<open>RegisterInfo::new(pc_reg, sp_reg)\<close>,
  a raw \<open>write\<close> to the index \<open>pc_reg\<close> converts to is what \<open>pc()\<close> then
  reads, and a raw \<open>write\<close> to the index of \<open>sp_reg\<close> is what \<open>sp()\<close> reads.
\<close>

theorem named_accessors_redirect:
  assumes "register_info (get_data u) = register_info_new into_pc into_sp pc_reg sp_reg"
  shows "(unicorn_write (into_pc pc_reg) v u = (Inr (), u1) \<longrightarrow>
            unicorn_pc u1 = Inr (take_bit (mode_bits u) v)) \<and>
         (unicorn_write (into_sp sp_reg) w u = (Inr (), u2) \<longrightarrow>
            unicorn_sp u2 = Inr (take_bit (mode_bits u) w))"
  using assms unicorn_write_read_same [of "into_pc pc_reg" v u u1]
    unicorn_write_data [of "into_pc pc_reg" v u _ u1]
    unicorn_write_read_same [of "into_sp sp_reg" w u u2]
    unicorn_write_data [of "into_sp sp_reg" w u _ u2]
  by (simp add: unicorn_pc_def unicorn_sp_def register_info_new_def)

theorem named_accessors_redirect_witness:
  "register_info (get_data (example_ctx 64 0 0)) = register_info_new (\<lambda>r::i32. r) (\<lambda>r::i32. r) 15 29 \<and>
   unicorn_write 15 4198400 (example_ctx 64 0 0) = (Inr (), example_ctx 64 4198400 0) \<and>
   unicorn_pc (example_ctx 64 4198400 0) = Inr 4198400 \<and>
   unicorn_write 29 8192 (example_ctx 64 0 0) = (Inr (), example_ctx 64 0 8192) \<and>
   unicorn_sp (example_ctx 64 0 8192) = Inr 8192"
proof -
  have ri: "register_info (get_data (example_ctx 64 0 0)) = register_info_new (\<lambda>r::i32. r) (\<lambda>r::i32. r) 15 29"
    by (simp add: example_defs)
  have w1: "unicorn_write 15 4198400 (example_ctx 64 0 0) = (Inr (), example_ctx 64 4198400 0)"
    by (simp add: unicorn_write_eq example_defs fun_upd_twist)
  have w2: "unicorn_write 29 8192 (example_ctx 64 0 0) = (Inr (), example_ctx 64 0 8192)"
    by (simp add: unicorn_write_eq example_defs)
  have "mode_bits (example_ctx 64 0 0) = 64" by (simp add: example_defs)
  then show ?thesis
    using ri w1 w2 named_accessors_redirect [OF ri, of 4198400 "example_ctx 64 4198400 0" 8192
        "example_ctx 64 0 8192"]
    by simp
qed

text \<open>
  C14. Program counter and stack pointer do not interfere when the
  architecture configures distinct ids for them: \<open>set_pc\<close> leaves what
  \<open>sp()\<close> returns unchanged, and \<open>incr_sp\<close> leaves what \<open>pc()\<close> returns
  unchanged, whether the call succeeds or fails.
\<close>

theorem pc_sp_independent:
  assumes "pc (register_info (get_data u)) \<noteq> sp (register_info (get_data u))"
  shows "unicorn_sp (snd (unicorn_set_pc v u)) = unicorn_sp u \<and>
    unicorn_pc (snd (incr_sp unicorn_stack_register d u)) = unicorn_pc u"
  using assms
  by (auto simp: unicorn_set_pc_def unicorn_sp_eq unicorn_pc_def unicorn_read_eq unicorn_write_eq
      unicorn_incr_sp_eq get_data_def Let_def split: option.splits)

theorem pc_sp_independent_witness:
  "pc (register_info (get_data (example_ctx 64 7 9))) \<noteq> sp (register_info (get_data (example_ctx 64 7 9))) \<and>
   unicorn_sp (snd (unicorn_set_pc 100 (example_ctx 64 7 9))) = Inr 9 \<and>
   unicorn_pc (snd (incr_sp unicorn_stack_register 8 (example_ctx 64 7 9))) = Inr 7"
proof -
  have ne: "pc (register_info (get_data (example_ctx 64 7 9))) \<noteq> sp (register_info (get_data (example_ctx 64 7 9)))"
    by (simp add: example_defs)
  have "unicorn_sp (example_ctx 64 7 9) = Inr 9" "unicorn_pc (example_ctx 64 7 9) = Inr 7"
    by (simp_all add: unicorn_sp_eq unicorn_pc_def unicorn_read_eq example_defs)
  then show ?thesis using ne pc_sp_independent [OF ne, of 100 8] by simp
qed

end
